theory Spec2Isabelle
  imports Main "HOL-Library.Word"
begin

section \<open>JavaScript values\<close>

text \<open>
  A JavaScript string is a sequence of UTF-16 code units and \<open>s.length\<close> counts them;
  a \<open>Uint8Array\<close> is a sequence of bytes. String literals of the source are written
  \<open>js ''...''\<close>.
\<close>

type_synonym jsstring = "16 word list"
type_synonym byte = "8 word"

definition js :: "string \<Rightarrow> jsstring" where
  "js s = map (\<lambda>c. of_nat (of_char c)) s"

text \<open>Truthiness of a string: only the empty string is falsy.\<close>

definition truthy :: "jsstring \<Rightarrow> bool" where
  "truthy s = (s \<noteq> [])"

fun str_includes :: "jsstring \<Rightarrow> jsstring \<Rightarrow> bool" where
  "str_includes [] sub = (sub = [])"
| "str_includes (c # cs) sub = (take (length sub) (c # cs) = sub \<or> str_includes cs sub)"

definition startsWith :: "jsstring \<Rightarrow> jsstring \<Rightarrow> bool" where
  "startsWith s p = (take (length p) s = p)"

definition endsWith :: "jsstring \<Rightarrow> jsstring \<Rightarrow> bool" where
  "endsWith s p = (length p \<le> length s \<and> drop (length s - length p) s = p)"

text \<open>
  \<open>String.prototype.trim\<close> removes the white space and line terminators of ECMAScript
  from both ends.
\<close>

definition is_ws :: "16 word \<Rightarrow> bool" where
  "is_ws c = (unat c \<in> {0x9, 0xA, 0xB, 0xC, 0xD, 0x20, 0xA0, 0x1680, 0x2028, 0x2029,
                        0x202F, 0x205F, 0x3000, 0xFEFF}
              \<or> (0x2000 \<le> unat c \<and> unat c \<le> 0x200A))"

definition trim :: "jsstring \<Rightarrow> jsstring" where
  "trim s = rev (dropWhile is_ws (rev (dropWhile is_ws s)))"

text \<open>JSON values of the response bodies, and objects as ordered key/value lists.\<close>

datatype jval = JNull | JNum int | JStr jsstring

type_synonym jobj = "(jsstring \<times> jval) list"

text \<open>
  \<open>obj_set k v ob\<close> is the object literal \<open>{...ob, k: v}\<close>: a key already present keeps its
  place and takes the new value, a new key goes to the end.
\<close>

fun obj_set :: "jsstring \<Rightarrow> jval \<Rightarrow> jobj \<Rightarrow> jobj" where
  "obj_set k v [] = [(k, v)]"
| "obj_set k v ((k', v') # ps) = (if k' = k then (k, v) # ps else (k', v') # obj_set k v ps)"

definition obj_get :: "jobj \<Rightarrow> jsstring \<Rightarrow> jval option" where
  "obj_get ob k = map_of ob k"

datatype exn = VendorError | TypeError | ParseError | NetworkError | HttpError nat

section \<open>Platform functions used by the route\<close>

subsection \<open>\<open>new TextDecoder().decode(bytes)\<close>\<close>

text \<open>
  The UTF-8 decoder of the Encoding standard, in its default mode: malformed input is
  replaced by U+FFFD (not fatal) and a leading byte order mark is dropped. The decoder
  yields code points; the string holds their UTF-16 code units.
\<close>

record utf8_state =
  code_point :: nat
  bytes_seen :: nat
  bytes_needed :: nat
  lower_boundary :: nat
  upper_boundary :: nat

definition utf8_init :: utf8_state where
  "utf8_init = \<lparr>code_point = 0, bytes_seen = 0, bytes_needed = 0,
                 lower_boundary = 0x80, upper_boundary = 0xBF\<rparr>"

text \<open>A byte read while no sequence is open: the code points emitted and the next state.\<close>

definition utf8_lead :: "nat \<Rightarrow> nat list \<times> utf8_state" where
  "utf8_lead b =
     (if b \<le> 0x7F then ([b], utf8_init)
      else if 0xC2 \<le> b \<and> b \<le> 0xDF then
        ([], utf8_init\<lparr>bytes_needed := 1, code_point := b mod 32\<rparr>)
      else if 0xE0 \<le> b \<and> b \<le> 0xEF then
        ([], utf8_init\<lparr>lower_boundary := (if b = 0xE0 then 0xA0 else 0x80),
                        upper_boundary := (if b = 0xED then 0x9F else 0xBF),
                        bytes_needed := 2, code_point := b mod 16\<rparr>)
      else if 0xF0 \<le> b \<and> b \<le> 0xF4 then
        ([], utf8_init\<lparr>lower_boundary := (if b = 0xF0 then 0x90 else 0x80),
                        upper_boundary := (if b = 0xF4 then 0x8F else 0xBF),
                        bytes_needed := 3, code_point := b mod 8\<rparr>)
      else ([0xFFFD], utf8_init))"

fun utf8_decode :: "utf8_state \<Rightarrow> byte list \<Rightarrow> nat list" where
  "utf8_decode st [] = (if bytes_needed st \<noteq> 0 then [0xFFFD] else [])"
| "utf8_decode st (b # bs) =
     (if bytes_needed st = 0 then
        fst (utf8_lead (unat b)) @ utf8_decode (snd (utf8_lead (unat b))) bs
      else if \<not> (lower_boundary st \<le> unat b \<and> unat b \<le> upper_boundary st) then
        0xFFFD # fst (utf8_lead (unat b)) @ utf8_decode (snd (utf8_lead (unat b))) bs
      else if bytes_seen st + 1 \<noteq> bytes_needed st then
        utf8_decode (st\<lparr>code_point := code_point st * 64 + unat b mod 64,
                         bytes_seen := bytes_seen st + 1,
                         lower_boundary := 0x80, upper_boundary := 0xBF\<rparr>) bs
      else (code_point st * 64 + unat b mod 64) # utf8_decode utf8_init bs)"

definition strip_bom :: "nat list \<Rightarrow> nat list" where
  "strip_bom cps = (case cps of [] \<Rightarrow> [] | c # r \<Rightarrow> if c = 0xFEFF then r else c # r)"

definition utf16_units :: "nat \<Rightarrow> jsstring" where
  "utf16_units c =
     (if c < 0x10000 then [of_nat c]
      else [of_nat (0xD800 + (c - 0x10000) div 0x400),
            of_nat (0xDC00 + (c - 0x10000) mod 0x400)])"

definition TextDecoder_decode :: "byte list \<Rightarrow> jsstring" where
  "TextDecoder_decode bs = concat (map utf16_units (strip_bom (utf8_decode utf8_init bs)))"

subsection \<open>\<open>Buffer.from(bytes).toString('base64')\<close>\<close>

definition base64_alphabet :: string where
  "base64_alphabet =
     ''ABCDEFGHIJKLMNOPQRSTUVWXYZabcdefghijklmnopqrstuvwxyz0123456789+/''"

definition base64_digit :: "nat \<Rightarrow> char" where
  "base64_digit n = base64_alphabet ! (n mod 64)"

fun base64_of :: "nat list \<Rightarrow> string" where
  "base64_of [] = []"
| "base64_of [a] =
     [base64_digit (a div 4), base64_digit (a mod 4 * 16), CHR ''='', CHR ''='']"
| "base64_of [a, b] =
     [base64_digit (a div 4), base64_digit (a mod 4 * 16 + b div 16),
      base64_digit (b mod 16 * 4), CHR ''='']"
| "base64_of (a # b # c # r) =
     [base64_digit (a div 4), base64_digit (a mod 4 * 16 + b div 16),
      base64_digit (b mod 16 * 4 + c div 64), base64_digit (c mod 64)] @ base64_of r"

definition toString_base64 :: "byte list \<Rightarrow> jsstring" where
  "toString_base64 bs = js (base64_of (map unat bs))"

section \<open>The API route (\<open>src/app/api/route.ts\<close>)\<close>

subsection \<open>Requests, responses and the three vendors\<close>

record jsfile =
  fname :: jsstring
  ftype :: jsstring
  fbytes :: "byte list"

text \<open>An entry of a form is a string or a file; \<open>formData.get\<close> gives null when it is absent.\<close>

datatype formval = FString jsstring | FFile jsfile

record formdata =
  fd_file :: "formval option"
  fd_model :: "jsstring option"
  fd_fileType :: "jsstring option"

record json_payload =
  jp_text :: "jsstring option"
  jp_model :: "jsstring option"

text \<open>
  A request: its \<open>content-type\<close> header and what \<open>req.formData()\<close> and \<open>req.json()\<close>
  give on its body, each of which throws on a body it cannot parse.
\<close>

record request =
  content_type :: "jsstring option"
  formData :: "exn + formdata"
  json :: "exn + json_payload"

record response =
  status :: nat
  body :: jobj

text \<open>
  The one message sent to Anthropic's \<open>beta.messages.countTokens\<close> (role \<open>user\<close>): a text,
  or one \<open>document\<close> or \<open>image\<close> block with a base64 source of the given media type.
\<close>

datatype content =
  TextContent jsstring
| DocumentContent jsstring jsstring
| ImageContent jsstring jsstring

record anthropic_request =
  betas :: "jsstring list"
  req_model :: jsstring
  content :: content

text \<open>
  The vendors are outside the repository; the route is modelled for every behaviour of
  theirs. Each call returns or throws. \<open>encode_gpt4o\<close> is
  \<open>encodingForModel('gpt-4o').encode\<close>, \<open>gemini_countTokens key text\<close> is the
  \<open>totalTokens\<close> of Gemini's \<open>countTokens\<close> under the given key.
\<close>

record env =
  anthropic_countTokens :: "anthropic_request \<Rightarrow> exn + jobj"
  encode_gpt4o :: "jsstring \<Rightarrow> exn + nat list"
  GEMINI_API_KEY :: "jsstring option"
  gemini_countTokens :: "jsstring \<Rightarrow> jsstring \<Rightarrow> exn + int"

text \<open>Every function of the route returns its value with the vendor calls it made, in order.\<close>

datatype call = CallAnthropic anthropic_request | CallGPT4o jsstring | CallGemini jsstring

type_synonym 'a traced = "'a \<times> call list"

definition DEFAULT_MODEL :: jsstring where
  "DEFAULT_MODEL = js ''claude-3-7-sonnet-20250219''"

subsection \<open>The secondary and tertiary counts\<close>

definition getGPT4oTokenCount :: "env \<Rightarrow> jsstring \<Rightarrow> jval traced" where
  "getGPT4oTokenCount e txt =
     (case encode_gpt4o e txt of
        Inl err \<Rightarrow> (JNull, [CallGPT4o txt])
      | Inr toks \<Rightarrow> (JNum (int (length toks)), [CallGPT4o txt]))"

definition getGeminiTokenCount :: "env \<Rightarrow> jsstring \<Rightarrow> jval traced" where
  "getGeminiTokenCount e txt =
     (case GEMINI_API_KEY e of
        None \<Rightarrow> (JNull, [])
      | Some key \<Rightarrow>
          if \<not> truthy key then (JNull, [])
          else (case gemini_countTokens e key txt of
                  Inl err \<Rightarrow> (JNull, [CallGemini txt])
                | Inr n \<Rightarrow> (JNum n, [CallGemini txt])))"

subsection \<open>\<open>POST\<close>\<close>

text \<open>
  \<open>Response.json({...count, fileChars, model, gpt4oTokens, geminiTokens})\<close>, with the
  default status 200.
\<close>

definition count_response :: "jobj \<Rightarrow> nat \<Rightarrow> jsstring \<Rightarrow> jval \<Rightarrow> jval \<Rightarrow> response" where
  "count_response count fileChars model gpt4oTokens geminiTokens =
     \<lparr>status = 200,
      body = obj_set (js ''geminiTokens'') geminiTokens
              (obj_set (js ''gpt4oTokens'') gpt4oTokens
                (obj_set (js ''model'') (JStr model)
                  (obj_set (js ''fileChars'') (JNum (int fileChars)) count)))\<rparr>"

text \<open>
  A call of \<open>anthropic.beta.messages.countTokens\<close> followed by the \<open>return\<close> of its branch;
  \<open>Inl\<close> is the exception that leaves the \<open>try\<close> block.
\<close>

definition count_and_return ::
  "env \<Rightarrow> anthropic_request \<Rightarrow> nat \<Rightarrow> jval \<Rightarrow> jval \<Rightarrow> call list \<Rightarrow> (exn + response) traced" where
  "count_and_return e r fileChars gpt4oTokens geminiTokens made =
     (case anthropic_countTokens e r of
        Inl err \<Rightarrow> (Inl err, made @ [CallAnthropic r])
      | Inr count \<Rightarrow>
          (Inr (count_response count fileChars (req_model r) gpt4oTokens geminiTokens),
           made @ [CallAnthropic r]))"

definition text_request :: "jsstring \<Rightarrow> jsstring \<Rightarrow> anthropic_request" where
  "text_request model txt =
     \<lparr>betas = [js ''token-counting-2024-11-01''], req_model = model,
      content = TextContent txt\<rparr>"

definition pdf_request :: "jsstring \<Rightarrow> jsstring \<Rightarrow> anthropic_request" where
  "pdf_request model base64Content =
     \<lparr>betas = [js ''token-counting-2024-11-01'', js ''pdfs-2024-09-25''], req_model = model,
      content = DocumentContent (js ''application/pdf'') base64Content\<rparr>"

definition image_request :: "jsstring \<Rightarrow> jsstring \<Rightarrow> jsstring \<Rightarrow> anthropic_request" where
  "image_request model mediaType base64Content =
     \<lparr>betas = [js ''token-counting-2024-11-01''], req_model = model,
      content = ImageContent mediaType base64Content\<rparr>"

text \<open>The media type of the image block (lines 216 to 221 of the route).\<close>

definition mediaType_of :: "jsstring \<Rightarrow> jsstring" where
  "mediaType_of t =
     (if t = js ''image/png'' then js ''image/png''
      else if t = js ''image/gif'' then js ''image/gif''
      else if t = js ''image/webp'' then js ''image/webp''
      else js ''image/jpeg'')"

text \<open>The secondary and tertiary counts of a text, then the primary count of it.\<close>

definition count_text_with_others ::
  "env \<Rightarrow> jsstring \<Rightarrow> jsstring \<Rightarrow> nat \<Rightarrow> (exn + response) traced" where
  "count_text_with_others e model txt fileChars =
     (let g = getGPT4oTokenCount e txt;
          m = getGeminiTokenCount e txt
      in count_and_return e (text_request model txt) fileChars (fst g) (fst m) (snd g @ snd m))"

text \<open>
  \<open>req.headers.get('content-type') || ''\<close>, the model of a form (\<open>DEFAULT_MODEL\<close> unless
  \<open>formModel\<close> is truthy), and \<open>jsonData.text || ''\<close> and \<open>jsonData.model || DEFAULT_MODEL\<close>.
\<close>

definition contentType :: "request \<Rightarrow> jsstring" where
  "contentType req = (case content_type req of None \<Rightarrow> [] | Some h \<Rightarrow> h)"

definition form_model :: "formdata \<Rightarrow> jsstring" where
  "form_model fd =
     (case fd_model fd of
        None \<Rightarrow> DEFAULT_MODEL
      | Some formModel \<Rightarrow> if truthy formModel then formModel else DEFAULT_MODEL)"

definition json_text :: "json_payload \<Rightarrow> jsstring" where
  "json_text jsonData =
     (case jp_text jsonData of None \<Rightarrow> [] | Some t \<Rightarrow> if truthy t then t else [])"

definition json_model :: "json_payload \<Rightarrow> jsstring" where
  "json_model jsonData =
     (case jp_model jsonData of
        None \<Rightarrow> DEFAULT_MODEL
      | Some m \<Rightarrow> if truthy m then m else DEFAULT_MODEL)"

text \<open>
  The body of the \<open>try\<close> block. A \<open>file\<close> entry that is a non-empty string has no
  \<open>arrayBuffer\<close>, which throws; an absent or empty one leaves \<open>text\<close> empty and
  \<open>fileChars\<close> 0 and goes on to the primary count.
\<close>

definition POST_try :: "env \<Rightarrow> request \<Rightarrow> (exn + response) traced" where
  "POST_try e req =
     (if str_includes (contentType req) (js ''multipart/form-data'') then
        (case formData req of
           Inl err \<Rightarrow> (Inl err, [])
         | Inr fd \<Rightarrow>
             (case fd_file fd of
                None \<Rightarrow> count_and_return e (text_request (form_model fd) []) 0 JNull JNull []
              | Some (FString s) \<Rightarrow>
                  if truthy s then (Inl TypeError, [])
                  else count_and_return e (text_request (form_model fd) []) 0 JNull JNull []
              | Some (FFile f) \<Rightarrow>
                  if fd_fileType fd = Some (js ''pdf'') then
                    count_and_return e
                      (pdf_request (form_model fd) (toString_base64 (fbytes f)))
                      (length (fbytes f)) JNull JNull []
                  else if fd_fileType fd = Some (js ''image'') then
                    count_and_return e
                      (image_request (form_model fd) (mediaType_of (ftype f))
                         (toString_base64 (fbytes f)))
                      (length (fbytes f)) JNull JNull []
                  else
                    count_text_with_others e (form_model fd)
                      (TextDecoder_decode (fbytes f)) (length (fbytes f))))
      else
        (case json req of
           Inl err \<Rightarrow> (Inl err, [])
         | Inr jsonData \<Rightarrow>
             count_text_with_others e (json_model jsonData) (json_text jsonData) 0))"

definition failure_response :: response where
  "failure_response =
     \<lparr>status = 500, body = [(js ''error'', JStr (js ''Failed to count tokens''))]\<rparr>"

definition POST :: "env \<Rightarrow> request \<Rightarrow> response traced" where
  "POST e req =
     (case POST_try e req of
        (Inr resp, made) \<Rightarrow> (resp, made)
      | (Inl err, made) \<Rightarrow> (failure_response, made))"

section \<open>The client (\<open>src/components/tokenComponents.tsx\<close>)\<close>

subsection \<open>Timers and \<open>debounce\<close>\<close>

text \<open>
  The event loop holds the clock, the next timer id and the timers that are scheduled and
  have neither fired nor been cleared. A timer carries the arguments its callback
  \<open>() => func(...args)\<close> passes to \<open>func\<close>.
\<close>

record 'a timer =
  timer_id :: nat
  due :: nat
  callback_args :: 'a

record 'a event_loop =
  now :: nat
  next_timer :: nat
  timers :: "'a timer list"

definition setTimeout :: "'a \<Rightarrow> nat \<Rightarrow> 'a event_loop \<Rightarrow> nat \<times> 'a event_loop" where
  "setTimeout args delay lp =
     (next_timer lp,
      lp\<lparr>next_timer := next_timer lp + 1,
         timers := timers lp @
           [\<lparr>timer_id = next_timer lp, due = now lp + delay, callback_args = args\<rparr>]\<rparr>)"

text \<open>\<open>clearTimeout(undefined)\<close> and \<open>clearTimeout\<close> of a timer that has fired do nothing.\<close>

definition clearTimeout :: "nat option \<Rightarrow> 'a event_loop \<Rightarrow> 'a event_loop" where
  "clearTimeout tid lp =
     (case tid of
        None \<Rightarrow> lp
      | Some i \<Rightarrow> lp\<lparr>timers := filter (\<lambda>t. timer_id t \<noteq> i) (timers lp)\<rparr>)"

text \<open>
  One call of the function that \<open>debounce(func, delay)\<close> returns. The closure owns the
  variable \<open>timeoutId\<close>, passed in and returned here.
\<close>

definition debounce ::
  "nat \<Rightarrow> 'a \<Rightarrow> nat option \<times> 'a event_loop \<Rightarrow> nat option \<times> 'a event_loop" where
  "debounce delay args s =
     (let lp = clearTimeout (fst s) (snd s);
          r = setTimeout args delay lp
      in (Some (fst r), snd r))"

text \<open>
  Time passes: the timers that are due fire in the order of their due times and leave the
  loop; the result lists the arguments of the calls of \<open>func\<close> that this makes.
\<close>

definition elapse :: "nat \<Rightarrow> 'a event_loop \<Rightarrow> 'a list \<times> 'a event_loop" where
  "elapse dt lp =
     (map callback_args (sort_key due (filter (\<lambda>t. due t \<le> now lp + dt) (timers lp))),
      lp\<lparr>now := now lp + dt,
         timers := filter (\<lambda>t. \<not> due t \<le> now lp + dt) (timers lp)\<rparr>)"

text \<open>
  The life of one debounced function with the delay of the component, 300 ms: it is
  called, or time passes. \<open>dispatched\<close> collects the calls of \<open>func\<close>.
\<close>

datatype 'a debounce_event = Invoke 'a | Elapse nat

record 'a debounced =
  timeoutId :: "nat option"
  loop :: "'a event_loop"
  dispatched :: "'a list"

definition debounced_step :: "'a debounced \<Rightarrow> 'a debounce_event \<Rightarrow> 'a debounced" where
  "debounced_step d ev =
     (case ev of
        Invoke args \<Rightarrow>
          (let r = debounce 300 args (timeoutId d, loop d)
           in d\<lparr>timeoutId := fst r, loop := snd r\<rparr>)
      | Elapse dt \<Rightarrow>
          (let r = elapse dt (loop d)
           in d\<lparr>loop := snd r, dispatched := dispatched d @ fst r\<rparr>))"

definition debounced_run :: "'a debounced \<Rightarrow> 'a debounce_event list \<Rightarrow> 'a debounced" where
  "debounced_run d evs = foldl debounced_step d evs"

text \<open>A debounced function as \<open>debounce\<close> returns it, on a loop with no timer of its own.\<close>

definition fresh_debounced :: "nat \<Rightarrow> nat \<Rightarrow> 'a debounced" where
  "fresh_debounced t0 n0 =
     \<lparr>timeoutId = None, loop = \<lparr>now = t0, next_timer = n0, timers = []\<rparr>, dispatched = []\<rparr>"

text \<open>The arguments of the latest call among the events, if there was a call.\<close>

fun latest_args :: "'a debounce_event list \<Rightarrow> 'a option" where
  "latest_args [] = None"
| "latest_args (ev # evs) =
     (case latest_args evs of
        Some a \<Rightarrow> Some a
      | None \<Rightarrow> (case ev of Invoke a \<Rightarrow> Some a | Elapse dt \<Rightarrow> None))"

subsection \<open>State of \<open>TokenizerInput\<close>\<close>

datatype file_kind = Image | Pdf | Text | Unknown

definition kind_string :: "file_kind \<Rightarrow> jsstring" where
  "kind_string k =
     (case k of Image \<Rightarrow> js ''image'' | Pdf \<Rightarrow> js ''pdf''
              | Text \<Rightarrow> js ''text'' | Unknown \<Rightarrow> js ''unknown'')"

definition CLAUDE_MODELS :: "(jsstring \<times> jsstring) list" where
  "CLAUDE_MODELS =
     [(js ''claude-3-7-sonnet-20250219'', js ''Claude 3.7 Sonnet''),
      (js ''claude-3-5-sonnet-20241022'', js ''Claude 3.5 Sonnet''),
      (js ''claude-3-5-haiku-20241022'', js ''Claude 3.5 Haiku''),
      (js ''claude-3-opus-20240229'', js ''Claude 3 Opus''),
      (js ''claude-3-sonnet-20240229'', js ''Claude 3 Sonnet''),
      (js ''claude-3-haiku-20240307'', js ''Claude 3 Haiku'')]"

definition getFileTypeCategory :: "jsfile \<Rightarrow> file_kind" where
  "getFileTypeCategory f =
     (if startsWith (ftype f) (js ''image/'') then Image
      else if ftype f = js ''application/pdf'' then Pdf
      else if str_includes (ftype f) (js ''text'') \<or>
              str_includes (ftype f) (js ''javascript'') \<or>
              str_includes (ftype f) (js ''json'') \<or>
              str_includes (ftype f) (js ''html'') \<or>
              str_includes (ftype f) (js ''css'') \<or>
              endsWith (fname f) (js ''.md'') \<or>
              endsWith (fname f) (js ''.csv'') then Text
      else Unknown)"

text \<open>The \<open>stats\<close> state, with the types the component declares (\<open>None\<close> is null).\<close>

record stats =
  tokens :: "int option"
  gpt4oTokens :: "int option"
  geminiTokens :: "int option"
  chars :: int
  fileName :: "jsstring option"

record ui_state =
  text_input :: jsstring
  file_input :: "jsfile option"
  fileType :: file_kind
  filePreview :: "jsstring option"
  selectedModel :: jsstring
  stats :: stats
  error_message :: "jsstring option"
  isProcessing :: bool
  showModelDropdown :: bool

definition empty_stats :: stats where
  "empty_stats =
     \<lparr>tokens = None, gpt4oTokens = None, geminiTokens = None, chars = 0, fileName = None\<rparr>"

definition initial_state :: ui_state where
  "initial_state =
     \<lparr>text_input = [], file_input = None, fileType = Unknown, filePreview = None,
      selectedModel = fst (hd CLAUDE_MODELS), stats = empty_stats, error_message = None,
      isProcessing = False, showModelDropdown = False\<rparr>"

subsection \<open>Requests to \<open>/api\<close> and the fields read from the answer\<close>

text \<open>
  \<open>fetch\<close> is a parameter: it answers with a response or throws. The two requests are the
  JSON body of \<open>handleAnalyzeText\<close> and the form of \<open>handleAnalyzeFile\<close>, for which the
  browser writes the \<open>multipart/form-data\<close> header with its boundary.
\<close>

type_synonym fetch = "request \<Rightarrow> exn + response"

definition json_request :: "jsstring \<Rightarrow> jsstring \<Rightarrow> request" where
  "json_request txt model =
     \<lparr>content_type = Some (js ''application/json''),
      formData = Inl ParseError,
      json = Inr \<lparr>jp_text = Some txt, jp_model = Some model\<rparr>\<rparr>"

definition multipart_request :: "jsfile \<Rightarrow> jsstring \<Rightarrow> file_kind \<Rightarrow> request" where
  "multipart_request f model k =
     \<lparr>content_type = Some (js ''multipart/form-data; boundary=----formdata''),
      formData = Inr \<lparr>fd_file = Some (FFile f), fd_model = Some model,
                       fd_fileType = Some (kind_string k)\<rparr>,
      json = Inl ParseError\<rparr>"

definition ok :: "response \<Rightarrow> bool" where
  "ok r = (200 \<le> status r \<and> status r \<le> 299)"

text \<open>
  A numeric field of the parsed body, read at the types the \<open>stats\<close> state declares
  (\<open>number | null\<close>). The reading is exact on a field that is a number or null, which is
  what every body of the route holds for \<open>input_tokens\<close>, \<open>fileChars\<close>, \<open>gpt4oTokens\<close> and
  \<open>geminiTokens\<close>. For \<open>input_tokens\<close> and \<open>fileChars\<close> it is exact on an absent field too:
  \<open>undefined > 7\<close> and \<open>null > 7\<close> are false, \<open>undefined || 0\<close> and \<open>null || 0\<close> are 0.
  It is not exact outside these cases: an absent \<open>gpt4oTokens\<close> or \<open>geminiTokens\<close> is
  stored as \<open>undefined\<close>, on which the panel throws, and a numeric string is coerced to
  its number; both read as \<open>None\<close> here. Facts about what the client stores and shows
  are therefore stated for bodies whose fields are numbers or null.
\<close>

definition num_field :: "jobj \<Rightarrow> jsstring \<Rightarrow> int option" where
  "num_field data k = (case obj_get data k of Some (JNum n) \<Rightarrow> Some n | _ \<Rightarrow> None)"

text \<open>\<open>data.input_tokens > 7 ? data.input_tokens - 7 : 0\<close>\<close>

definition displayed_tokens :: "jobj \<Rightarrow> int" where
  "displayed_tokens data =
     (case num_field data (js ''input_tokens'') of
        Some n \<Rightarrow> if n > 7 then n - 7 else 0
      | None \<Rightarrow> 0)"

text \<open>\<open>data.fileChars || 0\<close>\<close>

definition fileChars_or_0 :: "jobj \<Rightarrow> int" where
  "fileChars_or_0 data =
     (case num_field data (js ''fileChars'') of
        Some n \<Rightarrow> if n \<noteq> 0 then n else 0
      | None \<Rightarrow> 0)"

subsection \<open>\<open>handleAnalyzeText\<close>\<close>

text \<open>
  The handler closes over the \<open>selectedModel\<close> of the render that created it, the
  parameter \<open>model\<close>. Its part after \<open>await fetch\<close> works on the state of that later
  moment; the handler as a whole is the two parts with nothing in between. The result
  lists the requests sent.
\<close>

definition analyzeText_settled :: "jsstring \<Rightarrow> exn + response \<Rightarrow> ui_state \<Rightarrow> ui_state" where
  "analyzeText_settled txt res st =
     (case res of
        Inr resp \<Rightarrow>
          if ok resp then
            st\<lparr>stats := \<lparr>tokens = Some (displayed_tokens (body resp)),
                          gpt4oTokens = num_field (body resp) (js ''gpt4oTokens''),
                          geminiTokens = num_field (body resp) (js ''geminiTokens''),
                          chars = int (length txt), fileName = None\<rparr>,
               error_message := None, isProcessing := False\<rparr>
          else
            st\<lparr>error_message := Some (js ''Failed to analyze text. Please try again.''),
               stats := empty_stats\<lparr>chars := int (length txt)\<rparr>, isProcessing := False\<rparr>
      | Inl err \<Rightarrow>
          st\<lparr>error_message := Some (js ''Failed to analyze text. Please try again.''),
             stats := empty_stats\<lparr>chars := int (length txt)\<rparr>, isProcessing := False\<rparr>)"

definition handleAnalyzeText ::
  "fetch \<Rightarrow> jsstring \<Rightarrow> jsstring \<Rightarrow> ui_state \<Rightarrow> ui_state \<times> request list" where
  "handleAnalyzeText fetch model txt st =
     (if \<not> truthy (trim txt) then (st\<lparr>stats := empty_stats, error_message := None\<rparr>, [])
      else (analyzeText_settled txt (fetch (json_request txt model))
              (st\<lparr>isProcessing := True\<rparr>),
            [json_request txt model]))"

subsection \<open>\<open>handleAnalyzeFile\<close>\<close>

text \<open>The state that is rendered while the request is in flight.\<close>

definition analyzeFile_started :: "ui_state \<Rightarrow> ui_state" where
  "analyzeFile_started st =
     (case file_input st of None \<Rightarrow> st | Some f \<Rightarrow> st\<lparr>isProcessing := True\<rparr>)"

definition analyzeFile_settled :: "jsfile \<Rightarrow> exn + response \<Rightarrow> ui_state \<Rightarrow> ui_state" where
  "analyzeFile_settled f res st =
     (case res of
        Inr resp \<Rightarrow>
          if ok resp then
            st\<lparr>stats := \<lparr>tokens = Some (displayed_tokens (body resp)),
                          gpt4oTokens = num_field (body resp) (js ''gpt4oTokens''),
                          geminiTokens = num_field (body resp) (js ''geminiTokens''),
                          chars = fileChars_or_0 (body resp), fileName = Some (fname f)\<rparr>,
               error_message := None, isProcessing := False\<rparr>
          else
            st\<lparr>error_message := Some (js ''Failed to analyze file. Please try again.''),
               stats := empty_stats, isProcessing := False\<rparr>
      | Inl err \<Rightarrow>
          st\<lparr>error_message := Some (js ''Failed to analyze file. Please try again.''),
             stats := empty_stats, isProcessing := False\<rparr>)"

definition handleAnalyzeFile :: "fetch \<Rightarrow> ui_state \<Rightarrow> ui_state \<times> request list" where
  "handleAnalyzeFile fetch st =
     (case file_input st of
        None \<Rightarrow> (st, [])
      | Some f \<Rightarrow>
          (analyzeFile_settled f
             (fetch (multipart_request f (selectedModel st) (fileType st)))
             (analyzeFile_started st),
           [multipart_request f (selectedModel st) (fileType st)]))"

subsection \<open>The other handlers\<close>

text \<open>
  \<open>handleFileChange\<close> with the file chosen, if any. The preview of an image arrives
  later, when the \<open>FileReader\<close> has loaded (\<open>reader_onload\<close>).
\<close>

definition handleFileChange :: "jsfile option \<Rightarrow> ui_state \<Rightarrow> ui_state" where
  "handleFileChange selectedFile st =
     (case selectedFile of
        None \<Rightarrow> st
      | Some f \<Rightarrow>
          (let st' = st\<lparr>file_input := Some f, fileType := getFileTypeCategory f,
                        text_input := [],
                        stats := empty_stats\<lparr>fileName := Some (fname f)\<rparr>\<rparr>
           in if getFileTypeCategory f = Image then st' else st'\<lparr>filePreview := None\<rparr>))"

definition reader_onload :: "jsstring \<Rightarrow> ui_state \<Rightarrow> ui_state" where
  "reader_onload url st = st\<lparr>filePreview := Some url\<rparr>"

definition clearFile :: "ui_state \<Rightarrow> ui_state" where
  "clearFile st =
     st\<lparr>file_input := None, fileType := Unknown, filePreview := None, stats := empty_stats\<rparr>"

definition toggleModelDropdown :: "ui_state \<Rightarrow> ui_state" where
  "toggleModelDropdown st = st\<lparr>showModelDropdown := \<not> showModelDropdown st\<rparr>"

definition selectModel :: "jsstring \<Rightarrow> ui_state \<Rightarrow> ui_state" where
  "selectModel modelId st = st\<lparr>selectedModel := modelId, showModelDropdown := False\<rparr>"

subsection \<open>The metrics panel\<close>

text \<open>
  What a metric shows: the pulsing dots, a number (\<open>n.toLocaleString()\<close>) or the dash.
  The GPT-4o and Gemini sections are rendered or not.
\<close>

datatype cell = Pulse | NumText int | Dash

record metrics_props =
  p_tokens :: int
  p_gpt4oTokens :: "int option"
  p_geminiTokens :: "int option"
  p_chars :: int
  p_isProcessing :: bool
  p_fileName :: "jsstring option"
  p_fileType :: file_kind
  p_model :: jsstring

record metrics_view =
  claude_cell :: cell
  gpt4o_cell :: "cell option"
  gemini_cell :: "cell option"
  chars_cell :: cell
  model_line :: jsstring
  file_line :: "(jsstring \<times> jsstring) option"

definition no_name :: "jsstring option \<Rightarrow> bool" where
  "no_name n = (case n of None \<Rightarrow> True | Some s \<Rightarrow> \<not> truthy s)"

definition nullable_cell :: "bool \<Rightarrow> int option \<Rightarrow> cell" where
  "nullable_cell processing v =
     (if processing then Pulse else case v of Some n \<Rightarrow> NumText n | None \<Rightarrow> Dash)"

definition TokenMetrics :: "metrics_props \<Rightarrow> metrics_view" where
  "TokenMetrics p =
     \<lparr>claude_cell = (if p_isProcessing p then Pulse else NumText (p_tokens p)),
      gpt4o_cell = (if p_fileType p = Text \<or> no_name (p_fileName p)
                    then Some (nullable_cell (p_isProcessing p) (p_gpt4oTokens p)) else None),
      gemini_cell = (if p_fileType p = Text \<or> no_name (p_fileName p)
                     then Some (nullable_cell (p_isProcessing p) (p_geminiTokens p)) else None),
      chars_cell = (if p_isProcessing p then Pulse else NumText (p_chars p)),
      model_line = p_model p,
      file_line = (case p_fileName p of
                     None \<Rightarrow> None
                   | Some name \<Rightarrow>
                       if truthy name then
                         Some (if p_fileType p = Image then js ''Image''
                               else if p_fileType p = Pdf then js ''PDF'' else js ''File'',
                               name)
                       else None)\<rparr>"

definition selectedModelName :: "ui_state \<Rightarrow> jsstring" where
  "selectedModelName st =
     (case map_of CLAUDE_MODELS (selectedModel st) of
        Some name \<Rightarrow> if truthy name then name else selectedModel st
      | None \<Rightarrow> selectedModel st)"

text \<open>The props that \<open>TokenizerInput\<close> passes to \<open>TokenMetrics\<close>, and the panel it shows.\<close>

definition metrics_props_of :: "ui_state \<Rightarrow> metrics_props" where
  "metrics_props_of st =
     \<lparr>p_tokens = (case tokens (stats st) of Some n \<Rightarrow> n | None \<Rightarrow> 0),
      p_gpt4oTokens = gpt4oTokens (stats st),
      p_geminiTokens = geminiTokens (stats st),
      p_chars = chars (stats st),
      p_isProcessing = isProcessing st,
      p_fileName = fileName (stats st),
      p_fileType = (case file_input st of Some f \<Rightarrow> fileType st | None \<Rightarrow> Text),
      p_model = selectedModelName st\<rparr>"

definition metrics_panel :: "ui_state \<Rightarrow> metrics_view" where
  "metrics_panel st = TokenMetrics (metrics_props_of st)"

subsection \<open>The component with its debounced handler\<close>

text \<open>
  \<open>useCallback(debounce(handleAnalyzeText, 300), [selectedModel])\<close> keeps one debounced
  function for as long as \<open>selectedModel\<close> stays the same and takes a new one, with a
  \<open>timeoutId\<close> of its own, when it changes. \<open>memo_model\<close> is the \<open>selectedModel\<close> that the
  \<open>handleAnalyzeText\<close> inside the kept function closes over. A timer carries that model
  and the text.
\<close>

record component =
  ui :: ui_state
  memo_timeoutId :: "nat option"
  memo_model :: jsstring
  ev_loop :: "(jsstring \<times> jsstring) event_loop"
  sent :: "request list"

definition mount :: component where
  "mount =
     \<lparr>ui = initial_state, memo_timeoutId = None, memo_model = selectedModel initial_state,
      ev_loop = \<lparr>now = 0, next_timer = 1, timers = []\<rparr>, sent = []\<rparr>"

text \<open>
  The effect with the dependencies \<open>[text, debouncedHandleAnalyzeText, file]\<close>, run after
  a render in which one of them has changed.
\<close>

definition analyze_effect :: "component \<Rightarrow> component" where
  "analyze_effect c =
     (if file_input (ui c) = None \<and> truthy (text_input (ui c)) then
        (let r = debounce 300 (memo_model c, text_input (ui c)) (memo_timeoutId c, ev_loop c)
         in c\<lparr>memo_timeoutId := fst r, ev_loop := snd r\<rparr>)
      else c)"

text \<open>The events of the text mode: typing, choosing a model, and time passing.\<close>

datatype ui_event = OnChange jsstring | SelectModel jsstring | Wait nat

fun dispatch_all :: "fetch \<Rightarrow> (jsstring \<times> jsstring) list \<Rightarrow> component \<Rightarrow> component" where
  "dispatch_all fetch [] c = c"
| "dispatch_all fetch (a # as) c =
     (let r = handleAnalyzeText fetch (fst a) (snd a) (ui c)
      in dispatch_all fetch as (c\<lparr>ui := fst r, sent := sent c @ snd r\<rparr>))"

definition component_step :: "fetch \<Rightarrow> component \<Rightarrow> ui_event \<Rightarrow> component" where
  "component_step fetch c ev =
     (case ev of
        OnChange s \<Rightarrow>
          if s = text_input (ui c) then c
          else analyze_effect (c\<lparr>ui := (ui c)\<lparr>text_input := s\<rparr>\<rparr>)
      | SelectModel m \<Rightarrow>
          if m = selectedModel (ui c) then c\<lparr>ui := selectModel m (ui c)\<rparr>
          else analyze_effect
                 (c\<lparr>ui := selectModel m (ui c), memo_timeoutId := None, memo_model := m\<rparr>)
      | Wait dt \<Rightarrow>
          (let r = elapse dt (ev_loop c)
           in dispatch_all fetch (fst r) (c\<lparr>ev_loop := snd r\<rparr>)))"

definition component_run :: "fetch \<Rightarrow> component \<Rightarrow> ui_event list \<Rightarrow> component" where
  "component_run fetch c evs = foldl (component_step fetch) c evs"

text \<open>A network that reaches the route, whose vendors behave as \<open>e\<close> says.\<close>

definition fetch_route :: "env \<Rightarrow> fetch" where
  "fetch_route e req = Inr (fst (POST e req))"

section \<open>Concrete vendors, files and states\<close>

text \<open>
  Vendors that all answer (Anthropic with 12 input tokens, the encoder with three
  tokens, Gemini with 4), without and with a Gemini key; a primary vendor that throws;
  and secondary and tertiary vendors that throw while the primary answers.
\<close>

definition env_up :: env where
  "env_up =
     \<lparr>anthropic_countTokens = (\<lambda>r. Inr [(js ''input_tokens'', JNum 12)]),
      encode_gpt4o = (\<lambda>t. Inr [1, 2, 3]),
      GEMINI_API_KEY = None,
      gemini_countTokens = (\<lambda>k t. Inr 4)\<rparr>"

definition env_keyed :: env where
  "env_keyed = env_up\<lparr>GEMINI_API_KEY := Some (js ''key'')\<rparr>"

definition env_primary_down :: env where
  "env_primary_down = env_keyed\<lparr>anthropic_countTokens := (\<lambda>r. Inl VendorError)\<rparr>"

definition env_others_down :: env where
  "env_others_down =
     env_keyed\<lparr>encode_gpt4o := (\<lambda>t. Inl VendorError),
               gemini_countTokens := (\<lambda>k t. Inl VendorError)\<rparr>"

text \<open>
  A text file holding the two bytes of one \<open>U+00E9\<close>; a text file of 100 bytes holding 50
  of them; a text file of 100 ASCII letters; a bitmap image; a PDF.
\<close>

definition file_e_acute :: jsfile where
  "file_e_acute = \<lparr>fname = js ''e.txt'', ftype = js ''text/plain'', fbytes = [0xC3, 0xA9]\<rparr>"

definition file_fifty_e_acute :: jsfile where
  "file_fifty_e_acute =
     \<lparr>fname = js ''fifty.txt'', ftype = js ''text/plain'',
      fbytes = concat (replicate 50 [0xC3, 0xA9])\<rparr>"

definition file_hundred_a :: jsfile where
  "file_hundred_a =
     \<lparr>fname = js ''a.txt'', ftype = js ''text/plain'', fbytes = replicate 100 0x61\<rparr>"

definition file_bmp :: jsfile where
  "file_bmp = \<lparr>fname = js ''p.bmp'', ftype = js ''image/bmp'', fbytes = [0x42, 0x4D, 0, 1]\<rparr>"

definition file_pdf :: jsfile where
  "file_pdf =
     \<lparr>fname = js ''d.pdf'', ftype = js ''application/pdf'', fbytes = [0x25, 0x50, 0x44, 0x46]\<rparr>"

text \<open>
  The body that the route sends for a text when Anthropic counts 12 input tokens, the
  encoder three tokens, and Gemini is not available.
\<close>

definition route_body_12 :: jobj where
  "route_body_12 =
     body (count_response [(js ''input_tokens'', JNum 12)] 0 DEFAULT_MODEL (JNum 3) JNull)"

section \<open>Auxiliary facts\<close>

subsection \<open>Facts about the route\<close>

lemma obj_get_set: "obj_get (obj_set k v ob) k' = (if k' = k then Some v else obj_get ob k')"
  by (induction ob) (auto simp: obj_get_def)

lemma count_and_return_log:
  "snd (count_and_return e r fc g m made) = made @ [CallAnthropic r]"
  by (simp add: count_and_return_def split: sum.splits)

lemma count_and_return_fst:
  "fst (count_and_return e r fc g m made) =
     (case anthropic_countTokens e r of
        Inl err \<Rightarrow> Inl err
      | Inr count \<Rightarrow> Inr (count_response count fc (req_model r) g m))"
  by (simp add: count_and_return_def split: sum.splits)

lemma getGPT4oTokenCount_log: "snd (getGPT4oTokenCount e t) = [CallGPT4o t]"
  by (simp add: getGPT4oTokenCount_def split: sum.splits)

lemma getGeminiTokenCount_log: "CallAnthropic r \<notin> set (snd (getGeminiTokenCount e t))"
  by (simp add: getGeminiTokenCount_def split: sum.splits option.splits)

lemma count_text_with_others_log:
  "snd (count_text_with_others e model t fc) =
     CallGPT4o t # snd (getGeminiTokenCount e t) @ [CallAnthropic (text_request model t)]"
  by (simp add: count_text_with_others_def Let_def count_and_return_log getGPT4oTokenCount_log)

lemma count_text_with_others_fst:
  "fst (count_text_with_others e model t fc) =
     (case anthropic_countTokens e (text_request model t) of
        Inl err \<Rightarrow> Inl err
      | Inr count \<Rightarrow>
          Inr (count_response count fc model (fst (getGPT4oTokenCount e t))
                 (fst (getGeminiTokenCount e t))))"
  by (simp add: count_text_with_others_def Let_def count_and_return_fst text_request_def
      split: sum.splits)

lemma POST_try_anthropic:
  "CallAnthropic r \<in> set (snd (POST_try e req)) \<Longrightarrow>
   anthropic_countTokens e r = Inl err \<Longrightarrow> fst (POST_try e req) = Inl err"
  by (auto simp: POST_try_def count_text_with_others_log count_text_with_others_fst
        count_and_return_log count_and_return_fst getGeminiTokenCount_log
      split: sum.splits option.splits formval.splits if_splits)

lemma POST_of_try:
  "fst (POST e req) =
     (case fst (POST_try e req) of Inl err \<Rightarrow> failure_response | Inr resp \<Rightarrow> resp)"
  "snd (POST e req) = snd (POST_try e req)"
  by (auto simp: POST_def split: prod.splits sum.splits)

lemmas concrete_defs =
  env_up_def env_keyed_def env_primary_down_def env_others_down_def
  file_e_acute_def file_fifty_e_acute_def file_hundred_a_def file_bmp_def file_pdf_def

lemmas route_defs =
  POST_def POST_try_def count_text_with_others_def count_and_return_def count_response_def
  getGPT4oTokenCount_def getGeminiTokenCount_def text_request_def pdf_request_def
  image_request_def mediaType_of_def contentType_def form_model_def json_text_def
  json_model_def failure_response_def truthy_def DEFAULT_MODEL_def
  json_request_def multipart_request_def kind_string_def

lemma multipart_header:
  "str_includes (js ''multipart/form-data; boundary=----formdata'') (js ''multipart/form-data'')"
  by (simp add: js_def)

lemma json_header: "\<not> str_includes (js ''application/json'') (js ''multipart/form-data'')"
  by (simp add: js_def)

lemma kind_string_pdf: "(kind_string k = js ''pdf'') = (k = Pdf)"
  by (cases k) (simp_all add: kind_string_def js_def)

lemma kind_string_image: "(kind_string k = js ''image'') = (k = Image)"
  by (cases k) (simp_all add: kind_string_def js_def)

lemma POST_try_json_request:
  "POST_try e (json_request t m) =
     count_text_with_others e (if truthy m then m else DEFAULT_MODEL) t 0"
  by (simp add: POST_try_def json_request_def contentType_def json_header json_text_def
        json_model_def truthy_def)

lemma POST_try_multipart_request:
  "POST_try e (multipart_request f m k) =
     (if k = Pdf then
        count_and_return e
          (pdf_request (if truthy m then m else DEFAULT_MODEL) (toString_base64 (fbytes f)))
          (length (fbytes f)) JNull JNull []
      else if k = Image then
        count_and_return e
          (image_request (if truthy m then m else DEFAULT_MODEL) (mediaType_of (ftype f))
             (toString_base64 (fbytes f)))
          (length (fbytes f)) JNull JNull []
      else count_text_with_others e (if truthy m then m else DEFAULT_MODEL)
             (TextDecoder_decode (fbytes f)) (length (fbytes f)))"
  by (simp add: POST_try_def multipart_request_def contentType_def multipart_header
        form_model_def kind_string_pdf kind_string_image)

lemma keys_distinct:
  "js ''gpt4oTokens'' \<noteq> js ''geminiTokens''"
  "js ''fileChars'' \<noteq> js ''geminiTokens''"
  "js ''fileChars'' \<noteq> js ''gpt4oTokens''"
  "js ''fileChars'' \<noteq> js ''model''"
  "js ''input_tokens'' \<noteq> js ''geminiTokens''"
  "js ''input_tokens'' \<noteq> js ''gpt4oTokens''"
  "js ''input_tokens'' \<noteq> js ''model''"
  "js ''input_tokens'' \<noteq> js ''fileChars''"
  by (simp_all add: js_def)

lemma count_response_fields:
  "status (count_response count fc model g m) = 200"
  "obj_get (body (count_response count fc model g m)) (js ''geminiTokens'') = Some m"
  "obj_get (body (count_response count fc model g m)) (js ''gpt4oTokens'') = Some g"
  "obj_get (body (count_response count fc model g m)) (js ''fileChars'') = Some (JNum (int fc))"
  "obj_get (body (count_response count fc model g m)) (js ''input_tokens'')
     = obj_get count (js ''input_tokens'')"
  by (simp_all add: count_response_def obj_get_set keys_distinct)

lemma failure_status: "status failure_response = 500"
  by (simp add: failure_response_def)

lemma utf8_decode_ascii:
  "\<forall>b \<in> set bs. b < 0x80 \<Longrightarrow> utf8_decode utf8_init bs = map unat bs"
proof (induction bs)
  case Nil
  then show ?case by (simp add: utf8_init_def)
next
  case (Cons b bs)
  then have "unat b \<le> 0x7F" by (simp add: word_less_nat_alt)
  then have "utf8_lead (unat b) = ([unat b], utf8_init)" by (simp add: utf8_lead_def)
  moreover have "bytes_needed utf8_init = 0" by (simp add: utf8_init_def)
  ultimately show ?case using Cons by simp
qed

lemma TextDecoder_decode_ascii:
  assumes "\<forall>b \<in> set bs. b < (0x80 :: byte)"
  shows "length (TextDecoder_decode bs) = length bs"
proof -
  have small: "\<forall>c \<in> set (map unat bs). c < 0x80"
    using assms by (auto simp: word_less_nat_alt)
  have bom: "strip_bom (map unat bs) = map unat bs"
    using small by (cases bs) (auto simp: strip_bom_def)
  have "length (concat (map utf16_units cs)) = length cs" if "\<forall>c \<in> set cs. c < 0x80" for cs
    using that by (induction cs) (auto simp: utf16_units_def)
  with small have "length (concat (map utf16_units (map unat bs))) = length (map unat bs)"
    by blast
  then show ?thesis
    by (simp add: TextDecoder_decode_def utf8_decode_ascii [OF assms] bom)
qed

lemma decode_e_acute: "TextDecoder_decode [0xC3, 0xA9] = [0xE9]"
  by (simp add: TextDecoder_decode_def utf8_init_def utf8_lead_def strip_bom_def utf16_units_def)

lemma DEFAULT_MODEL_truthy: "truthy DEFAULT_MODEL"
  by (simp add: truthy_def DEFAULT_MODEL_def js_def)

lemma POST_estimator_fields:
  assumes "status (fst (POST e req)) = 200"
  shows "(obj_get (body (fst (POST e req))) (js ''gpt4oTokens'') = Some JNull
          \<or> (\<exists>k. obj_get (body (fst (POST e req))) (js ''gpt4oTokens'') = Some (JNum k)))
       \<and> (obj_get (body (fst (POST e req))) (js ''geminiTokens'') = Some JNull
          \<or> (\<exists>k. obj_get (body (fst (POST e req))) (js ''geminiTokens'') = Some (JNum k)))"
proof -
  have g: "fst (getGPT4oTokenCount e t) = JNull \<or> (\<exists>k. fst (getGPT4oTokenCount e t) = JNum k)"
    for t
    by (simp add: getGPT4oTokenCount_def split: sum.splits)
  have m: "fst (getGeminiTokenCount e t) = JNull
           \<or> (\<exists>k. fst (getGeminiTokenCount e t) = JNum k)" for t
    by (simp add: getGeminiTokenCount_def split: sum.splits option.splits)
  obtain count fc model gv mv where
    r: "fst (POST e req) = count_response count fc model gv mv"
    and gv: "gv = JNull \<or> (\<exists>k. gv = JNum k)" and mv: "mv = JNull \<or> (\<exists>k. mv = JNum k)"
    using assms g m
    by (auto simp: POST_of_try POST_try_def count_and_return_fst count_text_with_others_fst
          failure_status
        split: sum.splits option.splits formval.splits if_splits)
  show ?thesis using gv mv by (simp add: r count_response_fields)
qed

subsection \<open>Facts about the client\<close>

lemma trim_blank: "\<forall>c \<in> set s. is_ws c \<Longrightarrow> trim s = []"
proof -
  assume "\<forall>c \<in> set s. is_ws c"
  then have d: "dropWhile is_ws s = []" by simp
  show ?thesis unfolding trim_def d by simp
qed

lemma obj_get_single: "obj_get [(k, v)] k = Some v"
  by (simp add: obj_get_def)

lemma max_minus_7: "(if n > 7 then n - 7 else 0) = max (n - 7) (0::int)"
  by simp

lemma displayed_tokens_num:
  "obj_get data (js ''input_tokens'') = Some (JNum n) \<Longrightarrow>
   displayed_tokens data = (if n > 7 then n - 7 else 0)"
  by (simp add: displayed_tokens_def num_field_def)

lemma claude_cell_panel:
  "claude_cell (metrics_panel st) =
     (if isProcessing st then Pulse
      else NumText (case tokens (stats st) of Some n \<Rightarrow> n | None \<Rightarrow> 0))"
  by (simp add: metrics_panel_def TokenMetrics_def metrics_props_of_def)

lemma latest_args_snoc:
  "latest_args (evs @ [ev]) = (case ev of Invoke a \<Rightarrow> Some a | Elapse dt \<Rightarrow> latest_args evs)"
  by (induction evs) (auto split: debounce_event.splits option.splits)

lemma debounced_run_snoc:
  "debounced_run d (evs @ [ev]) = debounced_step (debounced_run d evs) ev"
  by (simp add: debounced_run_def)

lemma debounced_invariant:
  "timers (loop (debounced_run (fresh_debounced t0 n0) evs)) = []
   \<or> (\<exists>t. timers (loop (debounced_run (fresh_debounced t0 n0) evs)) = [t]
          \<and> timeoutId (debounced_run (fresh_debounced t0 n0) evs) = Some (timer_id t)
          \<and> latest_args evs = Some (callback_args t))"
proof (induction evs rule: rev_induct)
  case Nil
  show ?case by (simp add: debounced_run_def fresh_debounced_def)
next
  case (snoc ev evs)
  let ?d = "debounced_run (fresh_debounced t0 n0) evs"
  show ?case
  proof (cases ev)
    case (Invoke a)
    have "clearTimeout (timeoutId ?d) (loop ?d) = (loop ?d)\<lparr>timers := []\<rparr>"
      using snoc by (auto simp: clearTimeout_def split: option.splits)
    then show ?thesis
      by (simp add: debounced_run_snoc Invoke debounced_step_def debounce_def Let_def
          setTimeout_def latest_args_snoc)
  next
    case (Elapse dt)
    from snoc consider
      (idle) "timers (loop ?d) = []"
      | (pending) t where "timers (loop ?d) = [t]" "timeoutId ?d = Some (timer_id t)"
          "latest_args evs = Some (callback_args t)"
      by blast
    then show ?thesis
    proof cases
      case idle
      then show ?thesis
        by (simp add: debounced_run_snoc Elapse debounced_step_def elapse_def Let_def)
    next
      case pending
      then show ?thesis
        by (cases "due t \<le> now (loop ?d) + dt")
           (simp_all add: debounced_run_snoc Elapse debounced_step_def elapse_def Let_def
              latest_args_snoc)
    qed
  qed
qed

lemma POST_multipart_fileChars:
  "status (fst (POST e (multipart_request f m k))) = 200 \<Longrightarrow>
   obj_get (body (fst (POST e (multipart_request f m k)))) (js ''fileChars'')
     = Some (JNum (int (length (fbytes f))))"
  by (auto simp: POST_of_try POST_try_multipart_request count_and_return_fst
        count_text_with_others_fst count_response_fields failure_status
      split: sum.splits if_splits)

lemma POST_multipart_env_up:
  "status (fst (POST env_up (multipart_request f m k))) = 200"
  by (simp add: POST_of_try POST_try_multipart_request count_and_return_fst
        count_text_with_others_fst count_response_fields env_up_def)

lemma handleAnalyzeFile_chars:
  assumes "file_input st = Some f"
      and "status (fst (POST e (multipart_request f (selectedModel st) (fileType st)))) = 200"
  shows "chars (stats (fst (handleAnalyzeFile (fetch_route e) st))) = int (length (fbytes f))"
    and "isProcessing (fst (handleAnalyzeFile (fetch_route e) st)) = False"
  using assms POST_multipart_fileChars [OF assms(2)]
  by (simp_all add: handleAnalyzeFile_def analyzeFile_settled_def analyzeFile_started_def
      fetch_route_def ok_def fileChars_or_0_def num_field_def)

lemma chars_cell_panel:
  "chars_cell (metrics_panel st) =
     (if isProcessing st then Pulse else NumText (chars (stats st)))"
  by (simp add: metrics_panel_def TokenMetrics_def metrics_props_of_def)

lemma file_selected:
  "file_input (handleFileChange (Some f) st) = Some f"
  "fileType (handleFileChange (Some f) st) = getFileTypeCategory f"
  "selectedModel (handleFileChange (Some f) st) = selectedModel st"
  "isProcessing (handleFileChange (Some f) st) = isProcessing st"
  "stats (handleFileChange (Some f) st) = empty_stats\<lparr>fileName := Some (fname f)\<rparr>"
  by (simp_all add: handleFileChange_def Let_def)

lemma utf8_decode_e_acutes:
  "utf8_decode utf8_init (concat (replicate n [0xC3, 0xA9])) = replicate n 0xE9"
  by (induction n) (simp_all add: utf8_init_def utf8_lead_def)

lemma utf16_units_e_acutes: "concat (map utf16_units (replicate n 0xE9)) = replicate n 0xE9"
  by (induction n) (simp_all add: utf16_units_def)

lemma TextDecoder_decode_e_acutes:
  "TextDecoder_decode (concat (replicate n [0xC3, 0xA9])) = replicate n 0xE9"
proof -
  have "strip_bom (replicate n 0xE9) = replicate n 0xE9"
    by (cases n) (simp_all add: strip_bom_def)
  then show ?thesis
    unfolding TextDecoder_decode_def utf8_decode_e_acutes
    by (simp only: utf16_units_e_acutes)
qed

lemmas component_defs =
  component_run_def component_step_def analyze_effect_def mount_def initial_state_def
  debounce_def setTimeout_def clearTimeout_def elapse_def selectModel_def Let_def

lemma gpt4o_cell_panel:
  "gpt4o_cell (metrics_panel st) =
     (if file_input st = None \<or> fileType st = Text \<or> no_name (fileName (stats st))
      then Some (if isProcessing st then Pulse
                 else case gpt4oTokens (stats st) of Some n \<Rightarrow> NumText n | None \<Rightarrow> Dash)
      else None)"
  by (auto simp: metrics_panel_def TokenMetrics_def metrics_props_of_def nullable_cell_def
      split: option.splits)

lemma gemini_cell_panel:
  "gemini_cell (metrics_panel st) =
     (if file_input st = None \<or> fileType st = Text \<or> no_name (fileName (stats st))
      then Some (if isProcessing st then Pulse
                 else case geminiTokens (stats st) of Some n \<Rightarrow> NumText n | None \<Rightarrow> Dash)
      else None)"
  by (auto simp: metrics_panel_def TokenMetrics_def metrics_props_of_def nullable_cell_def
      split: option.splits)

lemma file_pdf_kind: "getFileTypeCategory file_pdf = Pdf"
  by (simp add: getFileTypeCategory_def file_pdf_def startsWith_def js_def)

section \<open>The route: failure of the primary count\<close>

text \<open>
  C4. Whenever the call of Anthropic's \<open>countTokens\<close> that the route makes throws, the
  answer has status 500 and its body is the object with the one key \<open>error\<close> and the
  value \<open>Failed to count tokens\<close>: nothing else, no partial result.
\<close>

theorem C4_primary_vendor_throws:
  assumes "CallAnthropic r \<in> set (snd (POST e req))"
      and "anthropic_countTokens e r = Inl err"
  shows "fst (POST e req) =
           \<lparr>status = 500, body = [(js ''error'', JStr (js ''Failed to count tokens''))]\<rparr>"
  using POST_try_anthropic [of r e req err] assms
  by (simp add: POST_of_try failure_response_def)

theorem C4_primary_vendor_throws_witness:
  "CallAnthropic (text_request DEFAULT_MODEL (js ''Hi''))
     \<in> set (snd (POST env_primary_down (json_request (js ''Hi'') DEFAULT_MODEL)))
   \<and> anthropic_countTokens env_primary_down (text_request DEFAULT_MODEL (js ''Hi''))
       = Inl VendorError
   \<and> fst (POST env_primary_down (json_request (js ''Hi'') DEFAULT_MODEL)) =
       \<lparr>status = 500, body = [(js ''error'', JStr (js ''Failed to count tokens''))]\<rparr>"
proof -
  have a: "CallAnthropic (text_request DEFAULT_MODEL (js ''Hi''))
     \<in> set (snd (POST env_primary_down (json_request (js ''Hi'') DEFAULT_MODEL)))"
    by (simp add: route_defs concrete_defs js_def)
  have b: "anthropic_countTokens env_primary_down (text_request DEFAULT_MODEL (js ''Hi''))
       = Inl VendorError"
    by (simp add: concrete_defs)
  from C4_primary_vendor_throws [OF a b] a b show ?thesis by simp
qed

section \<open>The route: what a file answer holds\<close>

text \<open>
  C1 (as the code has it). For every multipart request whose file is handled as text
  (the declared kind is neither \<open>pdf\<close> nor \<open>image\<close>, or is absent), the \<open>fileChars\<close> field
  of the success response is the number of bytes of the file. It is the length of the
  decoded text whenever every byte of the file is ASCII.
\<close>

theorem C1_fileChars_is_the_byte_length:
  assumes "str_includes (contentType req) (js ''multipart/form-data'')"
      and "formData req = Inr fd"
      and "fd_file fd = Some (FFile f)"
      and "fd_fileType fd \<noteq> Some (js ''pdf'')"
      and "fd_fileType fd \<noteq> Some (js ''image'')"
      and "status (fst (POST e req)) = 200"
  shows "obj_get (body (fst (POST e req))) (js ''fileChars'')
           = Some (JNum (int (length (fbytes f))))
       \<and> ((\<forall>b \<in> set (fbytes f). b < 0x80) \<longrightarrow>
            length (TextDecoder_decode (fbytes f)) = length (fbytes f))"
  using assms TextDecoder_decode_ascii [of "fbytes f"]
  by (auto simp: POST_of_try POST_try_def count_text_with_others_fst
        count_response_fields failure_status
      split: sum.splits)

theorem C1_fileChars_is_the_byte_length_witness:
  "str_includes (contentType (multipart_request file_hundred_a DEFAULT_MODEL Text))
     (js ''multipart/form-data'')
   \<and> status (fst (POST env_up (multipart_request file_hundred_a DEFAULT_MODEL Text))) = 200
   \<and> obj_get (body (fst (POST env_up (multipart_request file_hundred_a DEFAULT_MODEL Text))))
       (js ''fileChars'') = Some (JNum 100)
   \<and> length (TextDecoder_decode (fbytes file_hundred_a)) = 100"
proof -
  let ?req = "multipart_request file_hundred_a DEFAULT_MODEL Text"
  let ?fd = "\<lparr>fd_file = Some (FFile file_hundred_a), fd_model = Some DEFAULT_MODEL,
              fd_fileType = Some (kind_string Text)\<rparr>"
  have h1: "str_includes (contentType ?req) (js ''multipart/form-data'')"
    by (simp add: multipart_request_def contentType_def multipart_header)
  have h2: "formData ?req = Inr ?fd" by (simp add: multipart_request_def)
  have h3: "fd_file ?fd = Some (FFile file_hundred_a)" by simp
  have h4: "fd_fileType ?fd \<noteq> Some (js ''pdf'')" by (simp add: kind_string_pdf)
  have h5: "fd_fileType ?fd \<noteq> Some (js ''image'')" by (simp add: kind_string_image)
  have h6: "status (fst (POST env_up ?req)) = 200"
    by (simp add: POST_of_try POST_try_multipart_request count_text_with_others_fst
        count_response_fields env_up_def)
  have ascii: "\<forall>b \<in> set (fbytes file_hundred_a). b < 0x80"
    by (simp add: file_hundred_a_def)
  have len: "length (fbytes file_hundred_a) = 100" by (simp add: file_hundred_a_def)
  from C1_fileChars_is_the_byte_length [OF h1 h2 h3 h4 h5 h6] ascii len h1 h6
  show ?thesis by simp
qed

text \<open>
  The specification has \<open>fileChars\<close> as the length of the decoded text. That fails on
  a text file of the two bytes \<open>C3 A9\<close>: \<open>fileChars\<close> is 2 and the decoded text has one
  character.
\<close>

theorem C1_counterexample:
  "obj_get (body (fst (POST env_up (multipart_request file_e_acute DEFAULT_MODEL Text))))
     (js ''fileChars'') = Some (JNum 2)
   \<and> int (length (TextDecoder_decode (fbytes file_e_acute))) = 1
   \<and> obj_get (body (fst (POST env_up (multipart_request file_e_acute DEFAULT_MODEL Text))))
       (js ''fileChars'')
       \<noteq> Some (JNum (int (length (TextDecoder_decode (fbytes file_e_acute)))))"
  by (simp add: POST_of_try POST_try_multipart_request count_text_with_others_fst
      count_response_fields env_up_def file_e_acute_def decode_e_acute)

text \<open>
  C8. For every multipart request with the declared kind \<open>image\<close>, the route makes one
  vendor call, to Anthropic, with one image block whose media type is the file's own
  type when that is \<open>image/png\<close>, \<open>image/gif\<close> or \<open>image/webp\<close> and \<open>image/jpeg\<close> otherwise;
  and \<open>fileChars\<close> of the success response is the number of bytes of the file.
\<close>

theorem C8_image_media_type:
  assumes "str_includes (contentType req) (js ''multipart/form-data'')"
      and "formData req = Inr fd"
      and "fd_file fd = Some (FFile f)"
      and "fd_fileType fd = Some (js ''image'')"
  shows "snd (POST e req) =
           [CallAnthropic
              \<lparr>betas = [js ''token-counting-2024-11-01''], req_model = form_model fd,
               content = ImageContent
                 (if ftype f = js ''image/png'' \<or> ftype f = js ''image/gif''
                     \<or> ftype f = js ''image/webp'' then ftype f else js ''image/jpeg'')
                 (toString_base64 (fbytes f))\<rparr>]
       \<and> (status (fst (POST e req)) = 200 \<longrightarrow>
            obj_get (body (fst (POST e req))) (js ''fileChars'')
              = Some (JNum (int (length (fbytes f)))))"
proof -
  have ne: "js ''image'' \<noteq> js ''pdf''" by (simp add: js_def)
  show ?thesis
    using assms ne
    by (auto simp: POST_of_try POST_try_def count_and_return_log count_and_return_fst
          count_response_fields failure_status image_request_def mediaType_of_def
        split: sum.splits)
qed

theorem C8_image_media_type_witness:
  "str_includes (contentType (multipart_request file_bmp DEFAULT_MODEL Image))
     (js ''multipart/form-data'')
   \<and> ftype file_bmp = js ''image/bmp''
   \<and> snd (POST env_up (multipart_request file_bmp DEFAULT_MODEL Image)) =
       [CallAnthropic
          \<lparr>betas = [js ''token-counting-2024-11-01''], req_model = DEFAULT_MODEL,
           content = ImageContent (js ''image/jpeg'') (js ''Qk0AAQ=='')\<rparr>]
   \<and> status (fst (POST env_up (multipart_request file_bmp DEFAULT_MODEL Image))) = 200
   \<and> obj_get (body (fst (POST env_up (multipart_request file_bmp DEFAULT_MODEL Image))))
       (js ''fileChars'') = Some (JNum 4)"
proof -
  let ?req = "multipart_request file_bmp DEFAULT_MODEL Image"
  let ?fd = "\<lparr>fd_file = Some (FFile file_bmp), fd_model = Some DEFAULT_MODEL,
              fd_fileType = Some (kind_string Image)\<rparr>"
  have h1: "str_includes (contentType ?req) (js ''multipart/form-data'')"
    by (simp add: multipart_request_def contentType_def multipart_header)
  have h2: "formData ?req = Inr ?fd" by (simp add: multipart_request_def)
  have h3: "fd_file ?fd = Some (FFile file_bmp)" by simp
  have h4: "fd_fileType ?fd = Some (js ''image'')" by (simp add: kind_string_def)
  have s: "status (fst (POST env_up ?req)) = 200"
    by (simp add: POST_of_try POST_try_multipart_request count_and_return_fst
        count_response_fields concrete_defs)
  have t: "ftype file_bmp = js ''image/bmp''" "length (fbytes file_bmp) = 4"
    "js ''image/bmp'' \<noteq> js ''image/png''" "js ''image/bmp'' \<noteq> js ''image/gif''"
    "js ''image/bmp'' \<noteq> js ''image/webp''"
    by (simp_all add: file_bmp_def js_def)
  have m: "form_model ?fd = DEFAULT_MODEL"
    using DEFAULT_MODEL_truthy by (simp add: form_model_def)
  have b: "toString_base64 (fbytes file_bmp) = js ''Qk0AAQ==''"
    by (simp add: toString_base64_def file_bmp_def base64_digit_def base64_alphabet_def)
  from C8_image_media_type [OF h1 h2 h3 h4, of env_up] h1 s t m b
  show ?thesis by simp
qed

section \<open>The route: the secondary and tertiary counts\<close>

text \<open>
  C5. For every text payload (a JSON body, or a file whose declared kind is neither
  \<open>pdf\<close> nor \<open>image\<close>) on which the primary count answers, the request succeeds with
  status 200 and the primary vendor's \<open>input_tokens\<close>; \<open>gpt4oTokens\<close> is null exactly when
  the encoder throws and the token count otherwise, and \<open>geminiTokens\<close> is null when the
  Gemini key is absent or empty or the Gemini call throws and its count otherwise. Each
  of the two fields depends on its own vendor only.
\<close>

theorem C5_secondary_and_tertiary_failures_are_tolerated:
  assumes "(\<not> str_includes (contentType req) (js ''multipart/form-data'')
            \<and> json req = Inr jsonData
            \<and> model = json_model jsonData \<and> txt = json_text jsonData)
         \<or> (str_includes (contentType req) (js ''multipart/form-data'')
            \<and> formData req = Inr fd \<and> fd_file fd = Some (FFile f)
            \<and> fd_fileType fd \<noteq> Some (js ''pdf'') \<and> fd_fileType fd \<noteq> Some (js ''image'')
            \<and> model = form_model fd \<and> txt = TextDecoder_decode (fbytes f))"
      and "anthropic_countTokens e (text_request model txt) = Inr count"
  shows "status (fst (POST e req)) = 200
       \<and> obj_get (body (fst (POST e req))) (js ''input_tokens'')
           = obj_get count (js ''input_tokens'')
       \<and> obj_get (body (fst (POST e req))) (js ''gpt4oTokens'')
           = Some (case encode_gpt4o e txt of
                     Inl err \<Rightarrow> JNull
                   | Inr toks \<Rightarrow> JNum (int (length toks)))
       \<and> obj_get (body (fst (POST e req))) (js ''geminiTokens'')
           = Some (case GEMINI_API_KEY e of
                     None \<Rightarrow> JNull
                   | Some key \<Rightarrow>
                       if key = [] then JNull
                       else (case gemini_countTokens e key txt of
                               Inl err \<Rightarrow> JNull
                             | Inr n \<Rightarrow> JNum n))"
proof -
  have g: "fst (getGPT4oTokenCount e txt) =
             (case encode_gpt4o e txt of Inl err \<Rightarrow> JNull
              | Inr toks \<Rightarrow> JNum (int (length toks)))"
    by (simp add: getGPT4oTokenCount_def split: sum.splits)
  have m: "fst (getGeminiTokenCount e txt) =
             (case GEMINI_API_KEY e of None \<Rightarrow> JNull
              | Some key \<Rightarrow> if key = [] then JNull
                  else (case gemini_countTokens e key txt of Inl err \<Rightarrow> JNull
                        | Inr n \<Rightarrow> JNum n))"
    by (simp add: getGeminiTokenCount_def truthy_def split: sum.splits option.splits)
  have "\<exists>fc. fst (POST_try e req) = fst (count_text_with_others e model txt fc)"
    using assms(1) by (auto simp: POST_try_def)
  then obtain fc where
    "fst (POST e req) = count_response count fc model (fst (getGPT4oTokenCount e txt))
                          (fst (getGeminiTokenCount e txt))"
    using assms(2) by (auto simp: POST_of_try count_text_with_others_fst)
  then show ?thesis
    by (simp add: count_response_fields g m)
qed

theorem C5_secondary_and_tertiary_failures_are_tolerated_witness:
  "\<not> str_includes (contentType (json_request (js ''Hi'') DEFAULT_MODEL))
        (js ''multipart/form-data'')
   \<and> anthropic_countTokens env_others_down (text_request DEFAULT_MODEL (js ''Hi''))
       = Inr [(js ''input_tokens'', JNum 12)]
   \<and> encode_gpt4o env_others_down (js ''Hi'') = Inl VendorError
   \<and> gemini_countTokens env_others_down (js ''key'') (js ''Hi'') = Inl VendorError
   \<and> status (fst (POST env_others_down (json_request (js ''Hi'') DEFAULT_MODEL))) = 200
   \<and> obj_get (body (fst (POST env_others_down (json_request (js ''Hi'') DEFAULT_MODEL))))
       (js ''input_tokens'') = Some (JNum 12)
   \<and> obj_get (body (fst (POST env_others_down (json_request (js ''Hi'') DEFAULT_MODEL))))
       (js ''gpt4oTokens'') = Some JNull
   \<and> obj_get (body (fst (POST env_others_down (json_request (js ''Hi'') DEFAULT_MODEL))))
       (js ''geminiTokens'') = Some JNull"
proof -
  let ?req = "json_request (js ''Hi'') DEFAULT_MODEL"
  let ?jd = "\<lparr>jp_text = Some (js ''Hi''), jp_model = Some DEFAULT_MODEL\<rparr>"
  have h1: "\<not> str_includes (contentType ?req) (js ''multipart/form-data'')"
    by (simp add: json_request_def contentType_def json_header)
  have h2: "json ?req = Inr ?jd" by (simp add: json_request_def)
  have h3: "DEFAULT_MODEL = json_model ?jd"
    using DEFAULT_MODEL_truthy by (simp add: json_model_def)
  have h4: "js ''Hi'' = json_text ?jd" by (simp add: json_text_def truthy_def js_def)
  have p: "anthropic_countTokens env_others_down (text_request DEFAULT_MODEL (js ''Hi''))
             = Inr [(js ''input_tokens'', JNum 12)]"
    by (simp add: concrete_defs)
  have k: "GEMINI_API_KEY env_others_down = Some (js ''key'')" "js ''key'' \<noteq> []"
    "encode_gpt4o env_others_down (js ''Hi'') = Inl VendorError"
    "gemini_countTokens env_others_down (js ''key'') (js ''Hi'') = Inl VendorError"
    by (simp_all add: concrete_defs js_def)
  have d: "(\<not> str_includes (contentType ?req) (js ''multipart/form-data'')
            \<and> json ?req = Inr ?jd
            \<and> DEFAULT_MODEL = json_model ?jd \<and> js ''Hi'' = json_text ?jd)
         \<or> (str_includes (contentType ?req) (js ''multipart/form-data'')
            \<and> formData ?req = Inr fd \<and> fd_file fd = Some (FFile f)
            \<and> fd_fileType fd \<noteq> Some (js ''pdf'') \<and> fd_fileType fd \<noteq> Some (js ''image'')
            \<and> DEFAULT_MODEL = form_model fd \<and> js ''Hi'' = TextDecoder_decode (fbytes f))"
    for fd f
    using h1 h2 h3 h4 by blast
  from C5_secondary_and_tertiary_failures_are_tolerated [OF d p] h1 p k
  show ?thesis by (simp add: obj_get_def)
qed

text \<open>
  C6. For every multipart request with the declared kind \<open>pdf\<close> or \<open>image\<close>, whatever the
  vendors do, the route calls no vendor but Anthropic and the \<open>gpt4oTokens\<close> and
  \<open>geminiTokens\<close> of the success response are null.
\<close>

theorem C6_pdf_and_image_skip_the_estimators:
  assumes "str_includes (contentType req) (js ''multipart/form-data'')"
      and "formData req = Inr fd"
      and "fd_fileType fd = Some (js ''pdf'') \<or> fd_fileType fd = Some (js ''image'')"
  shows "(\<forall>c \<in> set (snd (POST e req)). \<exists>r. c = CallAnthropic r)
       \<and> (status (fst (POST e req)) = 200 \<longrightarrow>
            obj_get (body (fst (POST e req))) (js ''gpt4oTokens'') = Some JNull
          \<and> obj_get (body (fst (POST e req))) (js ''geminiTokens'') = Some JNull)"
  using assms
  by (auto simp: POST_of_try POST_try_def count_and_return_log count_and_return_fst
        count_response_fields failure_status
      split: sum.splits option.splits formval.splits)

theorem C6_pdf_and_image_skip_the_estimators_witness:
  "str_includes (contentType (multipart_request file_pdf DEFAULT_MODEL Pdf))
     (js ''multipart/form-data'')
   \<and> encode_gpt4o env_keyed (js ''Hi'') = Inr [1, 2, 3]
   \<and> GEMINI_API_KEY env_keyed = Some (js ''key'')
   \<and> status (fst (POST env_keyed (multipart_request file_pdf DEFAULT_MODEL Pdf))) = 200
   \<and> obj_get (body (fst (POST env_keyed (multipart_request file_pdf DEFAULT_MODEL Pdf))))
       (js ''gpt4oTokens'') = Some JNull
   \<and> obj_get (body (fst (POST env_keyed (multipart_request file_pdf DEFAULT_MODEL Pdf))))
       (js ''geminiTokens'') = Some JNull"
proof -
  let ?req = "multipart_request file_pdf DEFAULT_MODEL Pdf"
  let ?fd = "\<lparr>fd_file = Some (FFile file_pdf), fd_model = Some DEFAULT_MODEL,
              fd_fileType = Some (kind_string Pdf)\<rparr>"
  have h1: "str_includes (contentType ?req) (js ''multipart/form-data'')"
    by (simp add: multipart_request_def contentType_def multipart_header)
  have h2: "formData ?req = Inr ?fd" by (simp add: multipart_request_def)
  have h3: "fd_fileType ?fd = Some (js ''pdf'') \<or> fd_fileType ?fd = Some (js ''image'')"
    by (simp add: kind_string_def)
  have s: "status (fst (POST env_keyed ?req)) = 200"
    by (simp add: POST_of_try POST_try_multipart_request count_and_return_fst
        count_response_fields concrete_defs)
  have v: "encode_gpt4o env_keyed (js ''Hi'') = Inr [1, 2, 3]"
    "GEMINI_API_KEY env_keyed = Some (js ''key'')"
    by (simp_all add: concrete_defs)
  from C6_pdf_and_image_skip_the_estimators [OF h1 h2 h3, of env_keyed] h1 s v
  show ?thesis by simp
qed

section \<open>The client: what it sends and what it shows\<close>

text \<open>
  C2 (as the code has it). Uploading a file of 100 bytes and submitting it gives
  \<open>fileChars\<close> = 100, the number of bytes, in the success response of the route, and the
  \<open>chars\<close> metric of the client is that same number, 100, once the response has
  returned; it is the number of characters of the decoded file when every byte of the
  file is ASCII.
\<close>

theorem C2_hundred_byte_file:
  assumes "length (fbytes f) = 100"
      and "file_input st = Some f"
      and "status (fst (POST e (multipart_request f (selectedModel st) (fileType st)))) = 200"
  shows "obj_get (body (fst (POST e (multipart_request f (selectedModel st) (fileType st)))))
           (js ''fileChars'') = Some (JNum 100)
       \<and> chars (stats (fst (handleAnalyzeFile (fetch_route e) st))) = 100
       \<and> chars_cell (metrics_panel (fst (handleAnalyzeFile (fetch_route e) st))) = NumText 100
       \<and> ((\<forall>b \<in> set (fbytes f). b < 0x80) \<longrightarrow>
            length (TextDecoder_decode (fbytes f)) = 100)"
  using assms POST_multipart_fileChars [OF assms(3)] handleAnalyzeFile_chars [OF assms(2,3)]
    TextDecoder_decode_ascii [of "fbytes f"]
  by (simp add: chars_cell_panel)

theorem C2_hundred_byte_file_witness:
  "length (fbytes file_hundred_a) = 100
   \<and> obj_get (body (fst (POST env_up (multipart_request file_hundred_a
        (selectedModel (handleFileChange (Some file_hundred_a) initial_state))
        (fileType (handleFileChange (Some file_hundred_a) initial_state))))))
       (js ''fileChars'') = Some (JNum 100)
   \<and> chars (stats (fst (handleAnalyzeFile (fetch_route env_up)
        (handleFileChange (Some file_hundred_a) initial_state)))) = 100
   \<and> length (TextDecoder_decode (fbytes file_hundred_a)) = 100"
proof -
  let ?st = "handleFileChange (Some file_hundred_a) initial_state"
  have h1: "length (fbytes file_hundred_a) = 100" by (simp add: file_hundred_a_def)
  have h2: "file_input ?st = Some file_hundred_a" by (simp add: file_selected)
  have h3: "status (fst (POST env_up (multipart_request file_hundred_a (selectedModel ?st)
              (fileType ?st)))) = 200"
    by (rule POST_multipart_env_up)
  have ascii: "\<forall>b \<in> set (fbytes file_hundred_a). b < 0x80" by (simp add: file_hundred_a_def)
  from C2_hundred_byte_file [OF h1 h2 h3] ascii h1 show ?thesis by simp
qed

text \<open>
  The specification has the displayed \<open>chars\<close> as the count of decoded characters. That
  fails on a text file of 100 bytes holding 50 times \<open>C3 A9\<close>: the client
  shows 100 and the decoded text has 50 characters.
\<close>

theorem C2_counterexample:
  "length (fbytes file_fifty_e_acute) = 100
   \<and> chars (stats (fst (handleAnalyzeFile (fetch_route env_up)
        (handleFileChange (Some file_fifty_e_acute) initial_state)))) = 100
   \<and> length (TextDecoder_decode (fbytes file_fifty_e_acute)) = 50
   \<and> chars (stats (fst (handleAnalyzeFile (fetch_route env_up)
        (handleFileChange (Some file_fifty_e_acute) initial_state))))
       \<noteq> int (length (TextDecoder_decode (fbytes file_fifty_e_acute)))"
proof -
  let ?st = "handleFileChange (Some file_fifty_e_acute) initial_state"
  have len: "length (fbytes file_fifty_e_acute) = 100"
    by (simp add: file_fifty_e_acute_def length_concat sum_list_replicate)
  have sel: "file_input ?st = Some file_fifty_e_acute" by (simp add: file_selected)
  have "chars (stats (fst (handleAnalyzeFile (fetch_route env_up) ?st)))
          = int (length (fbytes file_fifty_e_acute))"
    by (rule handleAnalyzeFile_chars(1) [OF sel POST_multipart_env_up])
  moreover have "length (TextDecoder_decode (fbytes file_fifty_e_acute)) = 50"
    by (simp add: file_fifty_e_acute_def TextDecoder_decode_e_acutes)
  ultimately show ?thesis using len by simp
qed

text \<open>
  C3 (as the code has it). For every empty or white-space-only text, \<open>handleAnalyzeText\<close>
  sends no request, so that no vendor is called, sets the stats to null tokens and 0
  characters, and clears the error.
\<close>

theorem C3_blank_text_sends_nothing:
  assumes "\<forall>c \<in> set txt. is_ws c"
  shows "snd (handleAnalyzeText fetch model txt st) = []
       \<and> stats (fst (handleAnalyzeText fetch model txt st)) =
           \<lparr>tokens = None, gpt4oTokens = None, geminiTokens = None, chars = 0,
            fileName = None\<rparr>
       \<and> error_message (fst (handleAnalyzeText fetch model txt st)) = None"
  using trim_blank [OF assms]
  by (simp add: handleAnalyzeText_def truthy_def empty_stats_def)

theorem C3_blank_text_sends_nothing_witness:
  "is_ws 0x20 \<and> is_ws 0x9
   \<and> snd (handleAnalyzeText (fetch_route env_up) DEFAULT_MODEL [0x20, 0x9] initial_state) = []
   \<and> stats (fst (handleAnalyzeText (fetch_route env_up) DEFAULT_MODEL [0x20, 0x9]
               initial_state)) =
       \<lparr>tokens = None, gpt4oTokens = None, geminiTokens = None, chars = 0, fileName = None\<rparr>"
proof -
  have w: "is_ws 0x20" "is_ws 0x9" by (simp_all add: is_ws_def)
  then have "\<forall>c \<in> set [0x20, 0x9]. is_ws c" by simp
  from C3_blank_text_sends_nothing [OF this, of "fetch_route env_up" DEFAULT_MODEL initial_state] w
  show ?thesis by simp
qed

text \<open>
  The specification has the same short cut for the route, which has none: on a
  JSON body with the empty text it calls the encoder, Gemini and Anthropic, and answers
  200 with the count of the empty text.
\<close>

theorem C3_counterexample:
  "snd (POST env_keyed (json_request [] DEFAULT_MODEL)) =
       [CallGPT4o [], CallGemini [], CallAnthropic (text_request DEFAULT_MODEL [])]
   \<and> status (fst (POST env_keyed (json_request [] DEFAULT_MODEL))) = 200
   \<and> obj_get (body (fst (POST env_keyed (json_request [] DEFAULT_MODEL))))
       (js ''input_tokens'') = Some (JNum 12)"
proof -
  have k: "js ''key'' \<noteq> []" by (simp add: js_def)
  show ?thesis
    using DEFAULT_MODEL_truthy k
    by (simp add: POST_of_try POST_try_json_request count_text_with_others_log
        count_text_with_others_fst count_response_fields getGeminiTokenCount_def
        concrete_defs truthy_def obj_get_single)
qed

text \<open>
  C7. For every integer \<open>input_tokens\<close> of an ok response whose \<open>gpt4oTokens\<close> and
  \<open>geminiTokens\<close> are each null or a number, as they are in every body the route sends,
  the Claude token count that the client stores and shows, after \<open>handleAnalyzeText\<close> on a
  text that is not blank and after \<open>handleAnalyzeFile\<close> on a selected file, is
  \<open>input_tokens - 7\<close> when \<open>input_tokens > 7\<close> and 0 otherwise, that is
  \<open>max (input_tokens - 7) 0\<close>, which is never negative.
\<close>

theorem C7_displayed_claude_tokens:
  assumes "\<And>req. fetch req = Inr resp"
      and "ok resp"
      and "obj_get (body resp) (js ''input_tokens'') = Some (JNum n)"
      and "obj_get (body resp) (js ''gpt4oTokens'') = Some JNull
           \<or> (\<exists>k. obj_get (body resp) (js ''gpt4oTokens'') = Some (JNum k))"
      and "obj_get (body resp) (js ''geminiTokens'') = Some JNull
           \<or> (\<exists>k. obj_get (body resp) (js ''geminiTokens'') = Some (JNum k))"
  shows "(truthy (trim typed) \<longrightarrow>
            tokens (stats (fst (handleAnalyzeText fetch model typed st)))
              = Some (if n > 7 then n - 7 else 0)
          \<and> claude_cell (metrics_panel (fst (handleAnalyzeText fetch model typed st)))
              = NumText (max (n - 7) 0))
       \<and> (file_input st = Some f \<longrightarrow>
            tokens (stats (fst (handleAnalyzeFile fetch st)))
              = Some (if n > 7 then n - 7 else 0)
          \<and> claude_cell (metrics_panel (fst (handleAnalyzeFile fetch st)))
              = NumText (max (n - 7) 0))
       \<and> 0 \<le> max (n - 7) 0"
  using assms(1,2,3)
  by (simp add: handleAnalyzeText_def handleAnalyzeFile_def analyzeText_settled_def
      analyzeFile_settled_def analyzeFile_started_def displayed_tokens_num claude_cell_panel)

text \<open>
  A body as the route sends it for a text: 12 input tokens, three GPT-4o tokens, Gemini
  not available.
\<close>

theorem C7_displayed_claude_tokens_witness:
  "ok \<lparr>status = 200, body = route_body_12\<rparr>
   \<and> obj_get route_body_12 (js ''input_tokens'') = Some (JNum 12)
   \<and> obj_get route_body_12 (js ''gpt4oTokens'') = Some (JNum 3)
   \<and> obj_get route_body_12 (js ''geminiTokens'') = Some JNull
   \<and> truthy (trim (js ''Hi''))
   \<and> tokens (stats (fst (handleAnalyzeText
        (\<lambda>req. Inr \<lparr>status = 200, body = route_body_12\<rparr>)
        DEFAULT_MODEL (js ''Hi'') initial_state))) = Some 5
   \<and> claude_cell (metrics_panel (fst (handleAnalyzeText
        (\<lambda>req. Inr \<lparr>status = 200, body = route_body_12\<rparr>)
        DEFAULT_MODEL (js ''Hi'') initial_state))) = NumText 5
   \<and> tokens (stats (fst (handleAnalyzeFile
        (\<lambda>req. Inr \<lparr>status = 200, body = route_body_12\<rparr>)
        (handleFileChange (Some file_pdf) initial_state)))) = Some 5
   \<and> claude_cell (metrics_panel (fst (handleAnalyzeFile
        (\<lambda>req. Inr \<lparr>status = 200, body = route_body_12\<rparr>)
        (handleFileChange (Some file_pdf) initial_state)))) = NumText 5"
proof -
  let ?resp = "\<lparr>status = 200, body = route_body_12\<rparr>"
  let ?fetch = "\<lambda>req :: request. (Inr ?resp :: exn + response)"
  have h1: "\<And>req. ?fetch req = Inr ?resp" by simp
  have h2: "ok ?resp" by (simp add: ok_def)
  have b: "route_body_12 = body (count_response [(js ''input_tokens'', JNum 12)] 0
             DEFAULT_MODEL (JNum 3) JNull)"
    by (simp add: route_body_12_def)
  have h3: "obj_get (body ?resp) (js ''input_tokens'') = Some (JNum 12)"
    by (simp add: b count_response_fields obj_get_single)
  have g: "obj_get (body ?resp) (js ''gpt4oTokens'') = Some (JNum 3)"
    by (simp add: b count_response_fields)
  have m: "obj_get (body ?resp) (js ''geminiTokens'') = Some JNull"
    by (simp add: b count_response_fields)
  have h4: "obj_get (body ?resp) (js ''gpt4oTokens'') = Some JNull
           \<or> (\<exists>k. obj_get (body ?resp) (js ''gpt4oTokens'') = Some (JNum k))"
    using g by simp
  have h5: "obj_get (body ?resp) (js ''geminiTokens'') = Some JNull
           \<or> (\<exists>k. obj_get (body ?resp) (js ''geminiTokens'') = Some (JNum k))"
    using m by simp
  have t: "truthy (trim (js ''Hi''))" by (simp add: truthy_def trim_def js_def is_ws_def)
  have f: "file_input (handleFileChange (Some file_pdf) initial_state) = Some file_pdf"
    by (simp add: file_selected)
  from C7_displayed_claude_tokens [where fetch = "?fetch" and resp = "?resp" and n = 12
      and typed = "js ''Hi''" and model = DEFAULT_MODEL
      and st = "handleFileChange (Some file_pdf) initial_state" and f = file_pdf,
      OF h1 h2 h3 h4 h5]
    C7_displayed_claude_tokens [where fetch = "?fetch" and resp = "?resp" and n = 12
      and typed = "js ''Hi''" and model = DEFAULT_MODEL
      and st = initial_state and f = file_pdf, OF h1 h2 h3 h4 h5] h2 h3 g m t f
  show ?thesis by simp
qed

text \<open>
  C10 (as the code has it). Whenever the \<open>tokens\<close> metric is null and no request is in
  flight, the panel shows the Claude token count as the number 0; a null \<open>gpt4oTokens\<close>
  or \<open>geminiTokens\<close> shows as the dash whenever no request is in flight and its section
  is rendered, which is when no file is selected, the file is a text file, or the stats
  carry no file name.
\<close>

theorem C10_null_tokens_when_idle:
  assumes "tokens (stats st) = None"
      and "\<not> isProcessing st"
  shows "claude_cell (metrics_panel st) = NumText 0
       \<and> (gpt4oTokens (stats st) = None
            \<and> (file_input st = None \<or> fileType st = Text \<or> no_name (fileName (stats st)))
          \<longrightarrow> gpt4o_cell (metrics_panel st) = Some Dash)
       \<and> (geminiTokens (stats st) = None
            \<and> (file_input st = None \<or> fileType st = Text \<or> no_name (fileName (stats st)))
          \<longrightarrow> gemini_cell (metrics_panel st) = Some Dash)"
  using assms by (simp add: claude_cell_panel gpt4o_cell_panel gemini_cell_panel)

theorem C10_null_tokens_when_idle_witness:
  "tokens (stats (fst (handleAnalyzeFile (fetch_route env_primary_down)
      (handleFileChange (Some file_pdf) initial_state)))) = None
   \<and> \<not> isProcessing (fst (handleAnalyzeFile (fetch_route env_primary_down)
      (handleFileChange (Some file_pdf) initial_state)))
   \<and> claude_cell (metrics_panel (fst (handleAnalyzeFile (fetch_route env_primary_down)
      (handleFileChange (Some file_pdf) initial_state)))) = NumText 0
   \<and> gpt4o_cell (metrics_panel (fst (handleAnalyzeFile (fetch_route env_primary_down)
      (handleFileChange (Some file_pdf) initial_state)))) = Some Dash
   \<and> gemini_cell (metrics_panel (fst (handleAnalyzeFile (fetch_route env_primary_down)
      (handleFileChange (Some file_pdf) initial_state)))) = Some Dash"
proof -
  let ?st = "fst (handleAnalyzeFile (fetch_route env_primary_down)
      (handleFileChange (Some file_pdf) initial_state))"
  have r: "fst (POST env_primary_down (multipart_request file_pdf m k)) = failure_response"
    for m k
    by (simp add: POST_of_try POST_try_multipart_request count_and_return_fst
        count_text_with_others_fst concrete_defs)
  have st: "stats ?st = empty_stats" "isProcessing ?st = False"
    by (simp_all add: handleAnalyzeFile_def analyzeFile_settled_def analyzeFile_started_def
        file_selected fetch_route_def r ok_def failure_status)
  have h1: "tokens (stats ?st) = None" by (simp add: st empty_stats_def)
  have h2: "\<not> isProcessing ?st" by (simp add: st)
  have n: "gpt4oTokens (stats ?st) = None" "geminiTokens (stats ?st) = None"
    "no_name (fileName (stats ?st))"
    by (simp_all add: st empty_stats_def no_name_def)
  from C10_null_tokens_when_idle [OF h1 h2] h1 h2 n show ?thesis by simp
qed

text \<open>
  The specification has this for every state with null \<open>tokens\<close>. That fails while the request
  for a selected PDF is in flight: \<open>tokens\<close> and \<open>gpt4oTokens\<close> are null, the Claude count
  shows the pulsing dots and not 0, and the GPT-4o section is not rendered, as it is not
  from the moment the PDF is selected.
\<close>

theorem C10_counterexample:
  "tokens (stats (analyzeFile_started (handleFileChange (Some file_pdf) initial_state))) = None
   \<and> gpt4oTokens (stats (analyzeFile_started (handleFileChange (Some file_pdf) initial_state)))
       = None
   \<and> claude_cell (metrics_panel
        (analyzeFile_started (handleFileChange (Some file_pdf) initial_state))) = Pulse
   \<and> gpt4o_cell (metrics_panel
        (analyzeFile_started (handleFileChange (Some file_pdf) initial_state))) = None
   \<and> gpt4o_cell (metrics_panel (handleFileChange (Some file_pdf) initial_state)) = None"
proof -
  have n: "fname file_pdf \<noteq> []" by (simp add: file_pdf_def js_def)
  show ?thesis
    using n
    by (simp add: claude_cell_panel gpt4o_cell_panel analyzeFile_started_def file_selected
        file_pdf_kind empty_stats_def no_name_def truthy_def)
qed

section \<open>The client: debouncing\<close>

text \<open>
  C9 (as the code has it). For one debounced function, after any sequence of calls and
  waits: at most one dispatch is pending, and it carries the arguments of the latest
  call; a new call leaves exactly its own timer, due 300 ms later, so that it cancels the
  dispatch that was pending; and when time passes, either nothing is dispatched or one
  call of the handler is, with the arguments of the latest call.
\<close>

theorem C9_one_debounced_function:
  fixes evs :: "'a debounce_event list"
  shows "length (timers (loop (debounced_run (fresh_debounced t0 n0) evs))) \<le> 1
   \<and> (\<forall>t \<in> set (timers (loop (debounced_run (fresh_debounced t0 n0) evs))).
         latest_args evs = Some (callback_args t))
   \<and> timers (loop (debounced_step (debounced_run (fresh_debounced t0 n0) evs) (Invoke x))) =
       [\<lparr>timer_id = next_timer (loop (debounced_run (fresh_debounced t0 n0) evs)),
         due = now (loop (debounced_run (fresh_debounced t0 n0) evs)) + 300,
         callback_args = x\<rparr>]
   \<and> (dispatched (debounced_step (debounced_run (fresh_debounced t0 n0) evs) (Elapse dt)) =
         dispatched (debounced_run (fresh_debounced t0 n0) evs)
       \<or> (\<exists>a. latest_args evs = Some a
           \<and> dispatched (debounced_step (debounced_run (fresh_debounced t0 n0) evs) (Elapse dt))
               = dispatched (debounced_run (fresh_debounced t0 n0) evs) @ [a]))"
proof -
  let ?d = "debounced_run (fresh_debounced t0 n0) evs"
  note inv = debounced_invariant [of t0 n0 evs]
  have one: "length (timers (loop ?d)) \<le> 1" using inv by auto
  have latest: "\<forall>t \<in> set (timers (loop ?d)). latest_args evs = Some (callback_args t)"
    using inv by auto
  have "clearTimeout (timeoutId ?d) (loop ?d) = (loop ?d)\<lparr>timers := []\<rparr>"
    using inv by (auto simp: clearTimeout_def split: option.splits)
  then have cancel: "timers (loop (debounced_step ?d (Invoke x))) =
       [\<lparr>timer_id = next_timer (loop ?d), due = now (loop ?d) + 300, callback_args = x\<rparr>]"
    by (simp add: debounced_step_def debounce_def Let_def setTimeout_def)
  have fire: "dispatched (debounced_step ?d (Elapse dt)) = dispatched ?d
       \<or> (\<exists>a. latest_args evs = Some a
           \<and> dispatched (debounced_step ?d (Elapse dt)) = dispatched ?d @ [a])"
    using inv by (auto simp: debounced_step_def elapse_def Let_def)
  from one latest cancel fire show ?thesis by blast
qed

theorem C9_one_debounced_function_witness:
  "timers (loop (debounced_run (fresh_debounced 0 1)
      [Invoke (js ''a''), Elapse 100, Invoke (js ''ab'')])) =
     [\<lparr>timer_id = 2, due = 400, callback_args = js ''ab''\<rparr>]
   \<and> latest_args [Invoke (js ''a''), Elapse 100, Invoke (js ''ab'')] = Some (js ''ab'')
   \<and> dispatched (debounced_step (debounced_run (fresh_debounced 0 1)
        [Invoke (js ''a''), Elapse 100, Invoke (js ''ab'')]) (Elapse 300)) = [js ''ab'']
   \<and> timers (loop (debounced_step (debounced_run (fresh_debounced 0 1)
        [Invoke (js ''a''), Elapse 100, Invoke (js ''ab'')]) (Invoke (js ''abc'')))) =
     [\<lparr>timer_id = 3, due = 400, callback_args = js ''abc''\<rparr>]"
proof -
  have run: "debounced_run (fresh_debounced 0 1)
               [Invoke (js ''a''), Elapse 100, Invoke (js ''ab'')] =
             \<lparr>timeoutId = Some 2,
              loop = \<lparr>now = 100, next_timer = 3,
                      timers = [\<lparr>timer_id = 2, due = 400, callback_args = js ''ab''\<rparr>]\<rparr>,
              dispatched = []\<rparr>"
    by (simp add: debounced_run_def fresh_debounced_def debounced_step_def debounce_def
        setTimeout_def clearTimeout_def elapse_def Let_def)
  from C9_one_debounced_function [where ?t0.0 = 0 and ?n0.0 = 1
      and evs = "[Invoke (js ''a''), Elapse 100, Invoke (js ''ab'')]"
      and x = "js ''abc''" and dt = 300] run
  show ?thesis
    by (simp add: debounced_step_def elapse_def Let_def)
qed

text \<open>
  The specification has this for the text analysis of the component. That fails when the
  model is changed while a dispatch is pending: the component takes a new debounced
  function, whose first call cancels nothing, and two dispatches are pending, one for each
  model; both fire and two requests are sent.
\<close>

theorem C9_counterexample:
  "map callback_args (timers (ev_loop (component_run (fetch_route env_up) mount
      [OnChange (js ''a''), SelectModel (js ''claude-3-haiku-20240307'')]))) =
     [(js ''claude-3-7-sonnet-20250219'', js ''a''),
      (js ''claude-3-haiku-20240307'', js ''a'')]
   \<and> sent (component_run (fetch_route env_up) mount
      [OnChange (js ''a''), SelectModel (js ''claude-3-haiku-20240307''), Wait 300]) =
     [json_request (js ''a'') (js ''claude-3-7-sonnet-20250219''),
      json_request (js ''a'') (js ''claude-3-haiku-20240307'')]"
proof -
  have ne: "js ''a'' \<noteq> []" "js ''claude-3-haiku-20240307'' \<noteq> js ''claude-3-7-sonnet-20250219''"
    "trim (js ''a'') = js ''a''"
    by (simp_all add: js_def trim_def is_ws_def)
  have m: "fst (hd CLAUDE_MODELS) = js ''claude-3-7-sonnet-20250219''"
    by (simp add: CLAUDE_MODELS_def)
  show ?thesis
    using ne
    by (simp add: component_defs m truthy_def handleAnalyzeText_def)
qed

end
